theory Spec2Isabelle
  imports Main
begin

section \<open>Go values used by the CA manager\<close>

text \<open>
  The manager (\<^verbatim>\<open>pkg/server/ca/manager.go\<close>) works on instants of the Go type
  \<^verbatim>\<open>time.Time\<close> and on differences of the type \<^verbatim>\<open>time.Duration\<close>. An instant is
  modelled as its number of nanoseconds since the Unix epoch, unbounded (the wall clock
  reading; monotonic readings are not modelled). A duration is a signed 64-bit count
  of nanoseconds: \<^verbatim>\<open>Time.Sub\<close> saturates at the two ends of that range, unary minus
  wraps at the lower end, and division truncates towards zero. \<^verbatim>\<open>time.Unix\<close> turns
  an int64 count of seconds since the Unix epoch into an instant by an int64 addition
  that wraps around: a count above \<open>maxInt64 - unixToInternal\<close> gives an instant
  \<open>2 ^ 64\<close> seconds earlier.
\<close>

type_synonym Time = int
type_synonym Duration = int

definition maxDuration :: Duration where
  "maxDuration = 2 ^ 63 - 1"

definition minDuration :: Duration where
  "minDuration = - (2 ^ 63)"

definition Second :: Duration where
  "Second = 1000000000"

definition Hour :: Duration where
  "Hour = 3600 * Second"

definition time_After :: "Time \<Rightarrow> Time \<Rightarrow> bool" where
  "time_After t u = (u < t)"

definition time_Add :: "Time \<Rightarrow> Duration \<Rightarrow> Time" where
  "time_Add t d = t + d"

definition time_Sub :: "Time \<Rightarrow> Time \<Rightarrow> Duration" where
  "time_Sub t u =
     (let d = t - u
      in if maxDuration < d then maxDuration
         else if d < minDuration then minDuration
         else d)"

definition maxInt64 :: int where
  "maxInt64 = 2 ^ 63 - 1"

definition unixToInternal :: int where
  \<comment> \<open>the seconds from January 1, year 1 to the Unix epoch\<close>
  "unixToInternal = 62135596800"

definition time_Unix :: "int \<Rightarrow> Time" where
  \<comment> \<open>\<^verbatim>\<open>time.Unix(sec, 0)\<close> for an int64 \<open>sec\<close>: the instant is kept as the int64
      \<^verbatim>\<open>sec + unixToInternal\<close>, a sum that wraps around when it exceeds the greatest
      int64 (it cannot fall below the least one)\<close>
  "time_Unix sec =
     (let ext = sec + unixToInternal;
          wrapped = (if maxInt64 < ext then ext - 2 ^ 64 else ext)
      in (wrapped - unixToInternal) * Second)"

definition zeroTime :: Time where
  \<comment> \<open>the zero \<^verbatim>\<open>time.Time\<close>: January 1, year 1, 00:00 UTC\<close>
  "zeroTime = - 62135596800 * Second"

definition neg_Duration :: "Duration \<Rightarrow> Duration" where
  \<comment> \<open>unary minus on int64: the least value is its own negation\<close>
  "neg_Duration d = (if d = minDuration then minDuration else - d)"

definition quo_Duration :: "Duration \<Rightarrow> int \<Rightarrow> Duration" where
  \<comment> \<open>Go's \<^verbatim>\<open>/\<close> on integers truncates towards zero\<close>
  "quo_Duration a b =
     (if (a < 0) = (b < 0) then \<bar>a\<bar> div \<bar>b\<bar> else - (\<bar>a\<bar> div \<bar>b\<bar>))"

text \<open>
  A Go call either returns or panics (a nil dereference, an index out of range). Errors
  are ordinary return values.
\<close>

datatype 'a outcome = Panic | Returns 'a

datatype error =
    Error string
  | Wrap error
  | Errorf string error
  | combinedError "error list"

type_synonym der = "nat list"
type_synonym crypto_PublicKey = nat

record x509_Certificate =
  cert_Raw :: der
  cert_NotAfter :: Time
  cert_PublicKey :: crypto_PublicKey

record Signer =
  signer_keyID :: string
  signer_Public :: crypto_PublicKey

record X509CA =
  ca_Signer :: Signer
  ca_Chain :: "x509_Certificate list"
  ca_IsIntermediate :: bool

record JWTKey =
  jwt_Signer :: Signer
  jwt_Kid :: string
  jwt_NotAfter :: Time

section \<open>Slots and thresholds\<close>

definition DefaultCATTL :: Duration where
  "DefaultCATTL = 24 * Hour"

definition backdate :: Duration where
  "backdate = Second * 10"

definition safetyThreshold :: Duration where
  "safetyThreshold = 24 * Hour"

definition preparationThreshold :: "Time \<Rightarrow> Time \<Rightarrow> Time" where
  "preparationThreshold issuedAt notAfter =
     (let lifetime = time_Sub notAfter issuedAt
      in time_Add notAfter (quo_Duration (neg_Duration lifetime) 2))"

definition activationThreshold :: "Time \<Rightarrow> Time \<Rightarrow> Time" where
  "activationThreshold issuedAt notAfter =
     (let lifetime = time_Sub notAfter issuedAt
      in time_Add notAfter (quo_Duration (neg_Duration lifetime) 6))"

record x509CASlot =
  xs_id :: string
  xs_issuedAt :: Time
  xs_x509CA :: "X509CA option"

definition newX509CASlot :: "string \<Rightarrow> x509CASlot" where
  "newX509CASlot i = \<lparr>xs_id = i, xs_issuedAt = zeroTime, xs_x509CA = None\<rparr>"

definition x509CASlot_IsEmpty :: "x509CASlot \<Rightarrow> bool" where
  "x509CASlot_IsEmpty s = (xs_x509CA s = None)"

definition x509CASlot_Reset :: "x509CASlot \<Rightarrow> x509CASlot" where
  "x509CASlot_Reset s = s\<lparr>xs_x509CA := None\<rparr>"

text \<open>\<^verbatim>\<open>s.x509CA.Chain[0].NotAfter\<close>: the index panics on an empty chain.\<close>

definition chain0_NotAfter :: "X509CA \<Rightarrow> Time outcome" where
  "chain0_NotAfter ca = (case ca_Chain ca of [] \<Rightarrow> Panic | c # _ \<Rightarrow> Returns (cert_NotAfter c))"

definition x509CASlot_ShouldPrepareNext :: "x509CASlot \<Rightarrow> Time \<Rightarrow> bool outcome" where
  "x509CASlot_ShouldPrepareNext s now =
     (case xs_x509CA s of
        None \<Rightarrow> Returns False
      | Some ca \<Rightarrow>
          (case chain0_NotAfter ca of
             Panic \<Rightarrow> Panic
           | Returns notAfter \<Rightarrow>
               Returns (time_After now (preparationThreshold (xs_issuedAt s) notAfter))))"

definition x509CASlot_ShouldActivateNext :: "x509CASlot \<Rightarrow> Time \<Rightarrow> bool outcome" where
  "x509CASlot_ShouldActivateNext s now =
     (case xs_x509CA s of
        None \<Rightarrow> Returns False
      | Some ca \<Rightarrow>
          (case chain0_NotAfter ca of
             Panic \<Rightarrow> Panic
           | Returns notAfter \<Rightarrow>
               Returns (time_After now (activationThreshold (xs_issuedAt s) notAfter))))"

record jwtKeySlot =
  js_id :: string
  js_issuedAt :: Time
  js_jwtKey :: "JWTKey option"

definition newJWTKeySlot :: "string \<Rightarrow> jwtKeySlot" where
  "newJWTKeySlot i = \<lparr>js_id = i, js_issuedAt = zeroTime, js_jwtKey = None\<rparr>"

definition jwtKeySlot_IsEmpty :: "jwtKeySlot \<Rightarrow> bool" where
  "jwtKeySlot_IsEmpty s = (js_jwtKey s = None)"

definition jwtKeySlot_Reset :: "jwtKeySlot \<Rightarrow> jwtKeySlot" where
  "jwtKeySlot_Reset s = s\<lparr>js_jwtKey := None\<rparr>"

definition jwtKeySlot_ShouldPrepareNext :: "jwtKeySlot \<Rightarrow> Time \<Rightarrow> bool" where
  "jwtKeySlot_ShouldPrepareNext s now =
     (case js_jwtKey s of
        None \<Rightarrow> True
      | Some k \<Rightarrow> time_After now (preparationThreshold (js_issuedAt s) (jwt_NotAfter k)))"

definition jwtKeySlot_ShouldActivateNext :: "jwtKeySlot \<Rightarrow> Time \<Rightarrow> bool" where
  "jwtKeySlot_ShouldActivateNext s now =
     (case js_jwtKey s of
        None \<Rightarrow> True
      | Some k \<Rightarrow> time_After now (activationThreshold (js_issuedAt s) (jwt_NotAfter k)))"

definition otherSlotID :: "string \<Rightarrow> string" where
  "otherSlotID i = (if i = ''A'' then ''B'' else ''A'')"

section \<open>Collaborators\<close>

text \<open>
  The manager consumes the parsers and the certificate construction of the Go standard
  library (\<^verbatim>\<open>crypto/x509\<close>), the CA template and the key comparison of the server's
  helper packages, and the key manager plugin. None of them is
  part of the manager; each is taken as a parameter, so that every theorem holds for any
  behaviour of theirs. \<^verbatim>\<open>GetPublicKey\<close> answers with an error, with no key
  (\<^verbatim>\<open>resp.PublicKey == nil\<close>) or with the PKIX bytes of the key stored under the id.
\<close>

record Env =
  ParseCertificate :: "der \<Rightarrow> error + x509_Certificate"
  ParseCertificates :: "der \<Rightarrow> error + x509_Certificate list"
  ParsePKIXPublicKey :: "der \<Rightarrow> error + crypto_PublicKey"
  PublicKeyEqual :: "crypto_PublicKey \<Rightarrow> crypto_PublicKey \<Rightarrow> error + bool"
  GetPublicKey :: "string \<Rightarrow> error + der option"
  MarshalPKIXPublicKey :: "crypto_PublicKey \<Rightarrow> error + der"
  CreateCertificateRequest :: "Signer \<Rightarrow> error + der"
  CreateServerCATemplate :: "der \<Rightarrow> Time \<Rightarrow> Time \<Rightarrow> error + x509_Certificate"
  CreateCertificate :: "x509_Certificate \<Rightarrow> Signer \<Rightarrow> error + der"

record ManagerConfig =
  TrustDomain :: string
  UpstreamBundle :: bool
  CATTL :: Duration

section \<open>Trust bundle pruning\<close>

record common_Certificate =
  DerBytes :: der

record common_PublicKey =
  PkixBytes :: der
  pk_Kid :: string
  pk_NotAfter :: int

record common_Bundle =
  TrustDomainId :: string
  RootCas :: "common_Certificate list"
  JwtSigningKeys :: "common_PublicKey list"

text \<open>
  Modelled from the spec: the \<^verbatim>\<open>DataStore\<close> plugin (section 6 of the specification:
  \<^verbatim>\<open>FetchBundle\<close> returns the optional bundle of the trust domain, \<^verbatim>\<open>UpdateBundle\<close>
  is an authoritative replace). The store holds the bundle of the manager's trust domain
  and remembers every \<^verbatim>\<open>UpdateBundle\<close> request it received; a call may fail, and
  a failed update replaces nothing.
\<close>

record DataStore =
  ds_bundle :: "common_Bundle option"
  ds_updates :: "common_Bundle list"

definition FetchBundle :: "error option \<Rightarrow> DataStore \<Rightarrow> error + common_Bundle option" where
  "FetchBundle failure ds = (case failure of Some err \<Rightarrow> Inl err | None \<Rightarrow> Inr (ds_bundle ds))"

definition UpdateBundle :: "error option \<Rightarrow> common_Bundle \<Rightarrow> DataStore \<Rightarrow> error option \<times> DataStore" where
  "UpdateBundle failure b ds =
     (failure,
      ds\<lparr>ds_bundle := (if failure = None then Some b else ds_bundle ds),
         ds_updates := ds_updates ds @ [b]\<rparr>)"

text \<open>
  The inner loop of \<^verbatim>\<open>pruneBundle\<close>: the chain is thrown out at the first certificate
  with \<^verbatim>\<open>!cert.NotAfter.After(now)\<close>.
\<close>

fun chainExpired :: "Time \<Rightarrow> x509_Certificate list \<Rightarrow> bool" where
  "chainExpired now [] = False"
| "chainExpired now (cert # certs) =
     (if \<not> time_After (cert_NotAfter cert) now then True else chainExpired now certs)"

text \<open>
  The loop labelled \<^verbatim>\<open>pruneRootCA\<close>, with the roots kept so far and the flag
  \<^verbatim>\<open>changed\<close> as accumulators. A parse error ends the whole call.
\<close>

fun pruneRootCAs ::
  "(der \<Rightarrow> error + x509_Certificate list) \<Rightarrow> Time \<Rightarrow> common_Certificate list \<Rightarrow>
   common_Certificate list \<Rightarrow> bool \<Rightarrow> error + (common_Certificate list \<times> bool)" where
  "pruneRootCAs parse now [] newRootCas changed = Inr (newRootCas, changed)"
| "pruneRootCAs parse now (rootCA # rest) newRootCas changed =
     (case parse (DerBytes rootCA) of
        Inl err \<Rightarrow> Inl (Wrap err)
      | Inr certs \<Rightarrow>
          (if chainExpired now certs then pruneRootCAs parse now rest newRootCas True
           else pruneRootCAs parse now rest (newRootCas @ [rootCA]) changed))"

fun pruneJwtSigningKeys ::
  "Time \<Rightarrow> common_PublicKey list \<Rightarrow> common_PublicKey list \<Rightarrow> bool \<Rightarrow>
   common_PublicKey list \<times> bool" where
  "pruneJwtSigningKeys now [] newKeys changed = (newKeys, changed)"
| "pruneJwtSigningKeys now (jwtSigningKey # rest) newKeys changed =
     (let notAfter = time_Unix (pk_NotAfter jwtSigningKey)
      in if \<not> time_After notAfter now then pruneJwtSigningKeys now rest newKeys True
         else pruneJwtSigningKeys now rest (newKeys @ [jwtSigningKey]) changed)"

text \<open>
  \<^verbatim>\<open>pruneBundle\<close>: \<open>clockNow\<close> is the reading of the manager's clock,
  \<open>fetchFailure\<close> and \<open>updateFailure\<close> are the errors of the two datastore
  calls, if any. The result is the returned error (\<open>None\<close> for \<^verbatim>\<open>nil\<close>) and
  the datastore afterwards. Logging and metrics are left out.
\<close>

definition pruneBundle ::
  "Env \<Rightarrow> Time \<Rightarrow> error option \<Rightarrow> error option \<Rightarrow> DataStore \<Rightarrow> error option \<times> DataStore" where
  "pruneBundle env clockNow fetchFailure updateFailure ds =
     (let now = time_Add clockNow (- safetyThreshold)
      in case FetchBundle fetchFailure ds of
           Inl err \<Rightarrow> (Some (Wrap err), ds)
         | Inr None \<Rightarrow> (None, ds)
         | Inr (Some oldBundle) \<Rightarrow>
             (case pruneRootCAs (ParseCertificates env) now (RootCas oldBundle) [] False of
                Inl err \<Rightarrow> (Some err, ds)
              | Inr (newRootCas, changed1) \<Rightarrow>
                  (case pruneJwtSigningKeys now (JwtSigningKeys oldBundle) [] changed1 of
                     (newJwtSigningKeys, changed) \<Rightarrow>
                       if length newRootCas = 0
                       then (Some (Error ''would prune all certificates''), ds)
                       else if length newJwtSigningKeys = 0
                       then (Some (Error ''would prune all JWT signing keys''), ds)
                       else if changed
                       then (case UpdateBundle updateFailure
                                    \<lparr>TrustDomainId = TrustDomainId oldBundle,
                                     RootCas = newRootCas,
                                     JwtSigningKeys = newJwtSigningKeys\<rparr> ds of
                               (Some err, ds') \<Rightarrow> (Some (Errorf ''write new bundle: %v'' err), ds')
                             | (None, ds') \<Rightarrow> (None, ds'))
                       else (None, ds))))"

section \<open>Signing\<close>

record SignedCertificate =
  sc_CertChain :: der
  sc_Bundle :: der

record SubmitCSRResponse =
  resp_SignedCertificate :: "SignedCertificate option"
  DEPRECATEDCert :: der
  DEPRECATEDUpstreamTrustBundle :: der

text \<open>An upstream CA is its \<^verbatim>\<open>SubmitCSR\<close> call, from the CSR to the response.\<close>

type_synonym UpstreamCA = "der \<Rightarrow> error + SubmitCSRResponse"

definition parseUpstreamCACSRResponse ::
  "Env \<Rightarrow> SubmitCSRResponse \<Rightarrow> error + (x509_Certificate list \<times> x509_Certificate list)" where
  "parseUpstreamCACSRResponse env resp =
     (case resp_SignedCertificate resp of
        Some sc \<Rightarrow>
          (case ParseCertificates env (sc_CertChain sc) of
             Inl err \<Rightarrow> Inl err
           | Inr certChain \<Rightarrow>
               (case ParseCertificates env (sc_Bundle sc) of
                  Inl err \<Rightarrow> Inl err
                | Inr trustBundle \<Rightarrow> Inr (certChain, trustBundle)))
      | None \<Rightarrow>
          (case ParseCertificate env (DEPRECATEDCert resp) of
             Inl err \<Rightarrow> Inl err
           | Inr cert \<Rightarrow>
               (case ParseCertificates env (DEPRECATEDUpstreamTrustBundle resp) of
                  Inl err \<Rightarrow> Inl err
                | Inr trustBundle \<Rightarrow>
                    (let certChain = [cert]
                     in if length trustBundle = 0
                        then Inl (Error ''upstream CA returned an empty trust bundle'')
                        else if length trustBundle = 1
                        then Inr (certChain, trustBundle)
                        else Inr (certChain @ take (length trustBundle - 1) trustBundle,
                                  drop (length trustBundle - 1) trustBundle)))))"

definition GenerateServerCACSR :: "Env \<Rightarrow> Signer \<Rightarrow> error + der" where
  "GenerateServerCACSR env signer =
     (case CreateCertificateRequest env signer of
        Inl err \<Rightarrow> Inl err
      | Inr csr \<Rightarrow> Inr csr)"

definition SelfSignServerCACertificate ::
  "Env \<Rightarrow> Signer \<Rightarrow> Time \<Rightarrow> Time \<Rightarrow> error + x509_Certificate" where
  "SelfSignServerCACertificate env signer notBefore notAfter =
     (case GenerateServerCACSR env signer of
        Inl err \<Rightarrow> Inl err
      | Inr csr \<Rightarrow>
          (case CreateServerCATemplate env csr notBefore notAfter of
             Inl err \<Rightarrow> Inl err
           | Inr template \<Rightarrow>
               (case CreateCertificate env template signer of
                  Inl err \<Rightarrow> Inl err
                | Inr certDER \<Rightarrow>
                    (case ParseCertificate env certDER of
                       Inl err \<Rightarrow> Inl err
                     | Inr cert \<Rightarrow> Inr cert))))"

definition UpstreamSignServerCACertificate ::
  "Env \<Rightarrow> UpstreamCA \<Rightarrow> Signer \<Rightarrow> error + (x509_Certificate list \<times> x509_Certificate list)" where
  "UpstreamSignServerCACertificate env upstreamCA signer =
     (case GenerateServerCACSR env signer of
        Inl err \<Rightarrow> Inl err
      | Inr csr \<Rightarrow>
          (case upstreamCA csr of
             Inl err \<Rightarrow> Inl err
           | Inr resp \<Rightarrow> parseUpstreamCACSRResponse env resp))"

text \<open>
  \<^verbatim>\<open>SignX509CA\<close>. The slice expression \<^verbatim>\<open>caChain[:1]\<close> panics when the upstream
  chain is empty (\<^verbatim>\<open>x509.ParseCertificates\<close> returns a nil slice for empty input).
\<close>

definition SignX509CA ::
  "Env \<Rightarrow> Signer \<Rightarrow> UpstreamCA option \<Rightarrow> bool \<Rightarrow> Time \<Rightarrow> Time \<Rightarrow>
   (error + (X509CA \<times> x509_Certificate list)) outcome" where
  "SignX509CA env signer upstreamCA upstreamBundle notBefore notAfter =
     (case upstreamCA of
        Some up \<Rightarrow>
          (case UpstreamSignServerCACertificate env up signer of
             Inl err \<Rightarrow> Returns (Inl err)
           | Inr (caChain, trustBundle) \<Rightarrow>
               (let isIntermediate = upstreamBundle
                in if \<not> isIntermediate
                   then (case caChain of
                           [] \<Rightarrow> Panic
                         | c # _ \<Rightarrow>
                             Returns (Inr (\<lparr>ca_Signer = signer, ca_Chain = [c],
                                            ca_IsIntermediate = isIntermediate\<rparr>, [c])))
                   else Returns (Inr (\<lparr>ca_Signer = signer, ca_Chain = caChain,
                                        ca_IsIntermediate = isIntermediate\<rparr>, trustBundle))))
      | None \<Rightarrow>
          (case SelfSignServerCACertificate env signer notBefore notAfter of
             Inl err \<Rightarrow> Returns (Inl err)
           | Inr cert \<Rightarrow>
               Returns (Inr (\<lparr>ca_Signer = signer, ca_Chain = [cert],
                              ca_IsIntermediate = False\<rparr>, [cert]))))"

section \<open>The manager\<close>

definition NewManager :: "ManagerConfig \<Rightarrow> ManagerConfig" where
  "NewManager c = (if CATTL c \<le> 0 then c\<lparr>CATTL := DefaultCATTL\<rparr> else c)"

text \<open>
  The state of a manager whose \<^verbatim>\<open>loadJournal\<close> has returned without error: the four
  slot pointers (nil before that) point to four slot objects of their own. The calls
  received by the \<^verbatim>\<open>CASetter\<close> sink and the \<^verbatim>\<open>AppendBundle\<close> requests sent to
  the datastore are kept in the order they were made.
\<close>

record Manager =
  currentX509CA :: x509CASlot
  nextX509CA :: x509CASlot
  currentJWTKey :: jwtKeySlot
  nextJWTKey :: jwtKeySlot
  sink_X509CA :: "X509CA list"
  sink_JWTKey :: "JWTKey list"
  appended :: "common_Bundle list"

definition x509CAKmKeyId :: "string \<Rightarrow> string" where
  "x509CAKmKeyId i = ''x509-CA-'' @ i"

definition jwtKeyKmKeyId :: "string \<Rightarrow> string" where
  "jwtKeyKmKeyId i = ''JWT-Signer-'' @ i"

definition x509CASlot_KmKeyID :: "x509CASlot \<Rightarrow> string" where
  "x509CASlot_KmKeyID s = x509CAKmKeyId (xs_id s)"

definition jwtKeySlot_KmKeyID :: "jwtKeySlot \<Rightarrow> string" where
  "jwtKeySlot_KmKeyID s = jwtKeyKmKeyId (js_id s)"

definition publicKeyEqual :: "Env \<Rightarrow> crypto_PublicKey \<Rightarrow> crypto_PublicKey \<Rightarrow> bool" where
  "publicKeyEqual env a b =
     (case PublicKeyEqual env a b of Inl err \<Rightarrow> False | Inr matches \<Rightarrow> matches)"

definition makeSigner :: "Env \<Rightarrow> string \<Rightarrow> error + Signer option" where
  "makeSigner env keyID =
     (case GetPublicKey env keyID of
        Inl err \<Rightarrow> Inl (Wrap err)
      | Inr None \<Rightarrow> Inr None
      | Inr (Some pkixData) \<Rightarrow>
          (case ParsePKIXPublicKey env pkixData of
             Inl err \<Rightarrow> Inl (Wrap err)
           | Inr publicKey \<Rightarrow> Inr (Some \<lparr>signer_keyID = keyID, signer_Public = publicKey\<rparr>)))"

subsection \<open>Bundle appends\<close>

text \<open>
  \<^verbatim>\<open>appendBundle\<close> builds the request and sends it; \<open>failure\<close> is the error of
  the datastore call, if any. The request is returned with the error.
\<close>

definition appendBundle ::
  "ManagerConfig \<Rightarrow> error option \<Rightarrow> x509_Certificate list \<Rightarrow> common_PublicKey option \<Rightarrow>
   error option \<times> common_Bundle" where
  "appendBundle c failure caChain jwtSigningKey =
     (let rootCAs = map (\<lambda>caCert. \<lparr>DerBytes = cert_Raw caCert\<rparr>) caChain;
          jwtSigningKeys = (case jwtSigningKey of None \<Rightarrow> [] | Some k \<Rightarrow> [k])
      in (failure,
          \<lparr>TrustDomainId = TrustDomain c, RootCas = rootCAs, JwtSigningKeys = jwtSigningKeys\<rparr>))"

subsection \<open>Recovery from the journal\<close>

text \<open>
  Modelled from the spec: the journal's entries (section 3 of the specification: an X509
  CA entry records slot id, issuance time in seconds, DER chain and the intermediate
  flag; a JWT entry records slot id, issuance time, expiry, key id and PKIX public key).
  The journal's own code is not part of the manager.
\<close>

record X509CAEntry =
  xe_SlotId :: string
  xe_IssuedAt :: int
  xe_Chain :: "der list"
  xe_IsIntermediate :: bool

record JWTKeyEntry =
  je_SlotId :: string
  je_IssuedAt :: int
  je_NotAfter :: int
  je_Kid :: string
  je_PublicKey :: der

record JournalEntries =
  X509CAs :: "X509CAEntry list"
  JwtKeys :: "JWTKeyEntry list"

text \<open>
  The three results \<^verbatim>\<open>(slot, badReason, err)\<close> of the two entry loaders: an error,
  a non-empty reason why the entry is unusable, or the slot.
\<close>

datatype 'a loaded = LoadError error | BadReason string | Loaded 'a

fun parseChain ::
  "Env \<Rightarrow> der list \<Rightarrow> x509_Certificate list \<Rightarrow> error + x509_Certificate list" where
  "parseChain env [] chain = Inr chain"
| "parseChain env (certDER # rest) chain =
     (case ParseCertificate env certDER of
        Inl err \<Rightarrow> Inl (Errorf ''unable to parse chain: %v'' err)
      | Inr cert \<Rightarrow> parseChain env rest (chain @ [cert]))"

definition loadX509CASlotFromEntry :: "Env \<Rightarrow> X509CAEntry \<Rightarrow> x509CASlot loaded" where
  "loadX509CASlotFromEntry env entry =
     (if xe_SlotId entry = []
      then BadReason ''no slot id''
      else case parseChain env (xe_Chain entry) [] of
             Inl err \<Rightarrow> LoadError err
           | Inr chain \<Rightarrow>
               if length chain = 0
               then BadReason ''no certificates in chain''
               else (case makeSigner env (x509CAKmKeyId (xe_SlotId entry)) of
                       Inl err \<Rightarrow> LoadError err
                     | Inr None \<Rightarrow> BadReason ''no key manager key''
                     | Inr (Some signer) \<Rightarrow>
                         if \<not> publicKeyEqual env (cert_PublicKey (chain ! 0)) (signer_Public signer)
                         then BadReason ''public key does not match key manager key''
                         else Loaded
                           \<lparr>xs_id = xe_SlotId entry,
                            xs_issuedAt = time_Unix (xe_IssuedAt entry),
                            xs_x509CA = Some \<lparr>ca_Signer = signer, ca_Chain = chain,
                                              ca_IsIntermediate = xe_IsIntermediate entry\<rparr>\<rparr>))"

definition tryLoadX509CASlotFromEntry :: "Env \<Rightarrow> X509CAEntry \<Rightarrow> error + x509CASlot option" where
  "tryLoadX509CASlotFromEntry env entry =
     (case loadX509CASlotFromEntry env entry of
        LoadError err \<Rightarrow> Inl err
      | BadReason badReason \<Rightarrow> Inr None
      | Loaded slot \<Rightarrow> Inr (Some slot))"

definition loadJWTKeySlotFromEntry :: "Env \<Rightarrow> JWTKeyEntry \<Rightarrow> jwtKeySlot loaded" where
  "loadJWTKeySlotFromEntry env entry =
     (if je_SlotId entry = []
      then BadReason ''no slot id''
      else case ParsePKIXPublicKey env (je_PublicKey entry) of
             Inl err \<Rightarrow> LoadError (Wrap err)
           | Inr publicKey \<Rightarrow>
               (case makeSigner env (jwtKeyKmKeyId (je_SlotId entry)) of
                  Inl err \<Rightarrow> LoadError err
                | Inr None \<Rightarrow> BadReason ''no key manager key''
                | Inr (Some signer) \<Rightarrow>
                    if \<not> publicKeyEqual env publicKey (signer_Public signer)
                    then BadReason ''public key does not match key manager key''
                    else Loaded
                      \<lparr>js_id = je_SlotId entry,
                       js_issuedAt = time_Unix (je_IssuedAt entry),
                       js_jwtKey = Some \<lparr>jwt_Signer = signer, jwt_Kid = je_Kid entry,
                                         jwt_NotAfter = time_Unix (je_NotAfter entry)\<rparr>\<rparr>))"

definition tryLoadJWTKeySlotFromEntry :: "Env \<Rightarrow> JWTKeyEntry \<Rightarrow> error + jwtKeySlot option" where
  "tryLoadJWTKeySlotFromEntry env entry =
     (case loadJWTKeySlotFromEntry env entry of
        LoadError err \<Rightarrow> Inl err
      | BadReason badReason \<Rightarrow> Inr None
      | Loaded slot \<Rightarrow> Inr (Some slot))"

text \<open>
  The part of \<^verbatim>\<open>loadJournal\<close> that fills \<^verbatim>\<open>m.currentX509CA\<close> and
  \<^verbatim>\<open>m.nextX509CA\<close> (both nil before): the \<^verbatim>\<open>if\<close> over the entries, then the
  \<^verbatim>\<open>switch\<close>, whose first case is a non-nil current and whose second case is a
  non-nil next. A nil next beside a non-nil current cannot come out of the \<^verbatim>\<open>if\<close>,
  since the second-to-last entry is read only when the last one gave a slot; the manager
  would panic at its first use of the nil pointer, and the model marks that case so.
\<close>

definition loadX509CASlots ::
  "Env \<Rightarrow> X509CAEntry list \<Rightarrow> error + (x509CASlot option \<times> x509CASlot option)" where
  "loadX509CASlots env entries =
     (if length entries > 0
      then case tryLoadX509CASlotFromEntry env (entries ! (length entries - 1)) of
             Inl err \<Rightarrow> Inl err
           | Inr nextSlot \<Rightarrow>
               if nextSlot \<noteq> None \<and> length entries > 1
               then case tryLoadX509CASlotFromEntry env (entries ! (length entries - 2)) of
                      Inl err \<Rightarrow> Inl err
                    | Inr currentSlot \<Rightarrow> Inr (currentSlot, nextSlot)
               else Inr (None, nextSlot)
      else Inr (None, None))"

definition switchX509CASlots ::
  "x509CASlot option \<times> x509CASlot option \<Rightarrow> (x509CASlot \<times> x509CASlot) outcome" where
  "switchX509CASlots p =
     (case p of
        (Some currentSlot, Some nextSlot) \<Rightarrow> Returns (currentSlot, nextSlot)
      | (Some currentSlot, None) \<Rightarrow> Panic
      | (None, Some nextSlot) \<Rightarrow>
          Returns (nextSlot, newX509CASlot (otherSlotID (xs_id nextSlot)))
      | (None, None) \<Rightarrow> Returns (newX509CASlot ''A'', newX509CASlot ''B''))"

definition loadJWTKeySlots ::
  "Env \<Rightarrow> JWTKeyEntry list \<Rightarrow> error + (jwtKeySlot option \<times> jwtKeySlot option)" where
  "loadJWTKeySlots env entries =
     (if length entries > 0
      then case tryLoadJWTKeySlotFromEntry env (entries ! (length entries - 1)) of
             Inl err \<Rightarrow> Inl err
           | Inr nextSlot \<Rightarrow>
               if nextSlot \<noteq> None \<and> length entries > 1
               then case tryLoadJWTKeySlotFromEntry env (entries ! (length entries - 2)) of
                      Inl err \<Rightarrow> Inl err
                    | Inr currentSlot \<Rightarrow> Inr (currentSlot, nextSlot)
               else Inr (None, nextSlot)
      else Inr (None, None))"

definition switchJWTKeySlots ::
  "jwtKeySlot option \<times> jwtKeySlot option \<Rightarrow> (jwtKeySlot \<times> jwtKeySlot) outcome" where
  "switchJWTKeySlots p =
     (case p of
        (Some currentSlot, Some nextSlot) \<Rightarrow> Returns (currentSlot, nextSlot)
      | (Some currentSlot, None) \<Rightarrow> Panic
      | (None, Some nextSlot) \<Rightarrow>
          Returns (nextSlot, newJWTKeySlot (otherSlotID (js_id nextSlot)))
      | (None, None) \<Rightarrow> Returns (newJWTKeySlot ''A'', newJWTKeySlot ''B''))"

subsection \<open>Activation\<close>

text \<open>
  Both activation functions read the material of the current slot for the log line
  (\<^verbatim>\<open>m.currentX509CA.x509CA.Chain[0].NotAfter\<close>, \<^verbatim>\<open>m.currentJWTKey.jwtKey.NotAfter\<close>)
  before they hand it to the sink: on an empty slot this is a nil dereference.
\<close>

definition activateX509CA :: "Manager \<Rightarrow> Manager outcome" where
  "activateX509CA m =
     (case xs_x509CA (currentX509CA m) of
        None \<Rightarrow> Panic
      | Some ca \<Rightarrow>
          (case chain0_NotAfter ca of
             Panic \<Rightarrow> Panic
           | Returns notAfter \<Rightarrow> Returns (m\<lparr>sink_X509CA := sink_X509CA m @ [ca]\<rparr>)))"

definition activateJWTKey :: "Manager \<Rightarrow> Manager outcome" where
  "activateJWTKey m =
     (case js_jwtKey (currentJWTKey m) of
        None \<Rightarrow> Panic
      | Some k \<Rightarrow> Returns (m\<lparr>sink_JWTKey := sink_JWTKey m @ [k]\<rparr>))"

subsection \<open>Preparation\<close>

text \<open>
  What the collaborators answer during one call of \<^verbatim>\<open>prepareX509CA\<close>: the clock,
  \<^verbatim>\<open>cryptoutil.GenerateKeyAndSigner\<close> (given the key id), the configured upstream CA
  (if any) and the
  datastore's \<^verbatim>\<open>AppendBundle\<close>. A failed journal append is only logged, so it has
  no place here.
\<close>

record PrepareX509 =
  px_Now :: Time
  px_GenerateKeyAndSigner :: "string \<Rightarrow> error + Signer"
  px_UpstreamCA :: "UpstreamCA option"
  px_AppendBundle :: "error option"

text \<open>
  The result of a preparation: the returned error, the slot as the call leaves it, and
  the \<^verbatim>\<open>AppendBundle\<close> requests it sent.
\<close>

definition prepareX509CA ::
  "Env \<Rightarrow> ManagerConfig \<Rightarrow> PrepareX509 \<Rightarrow> x509CASlot \<Rightarrow>
   (error option \<times> x509CASlot \<times> common_Bundle list) outcome" where
  "prepareX509CA env c w slot0 =
     (let slot = x509CASlot_Reset slot0;
          now = px_Now w;
          notBefore = time_Add now (- backdate);
          notAfter = time_Add now (CATTL c)
      in case px_GenerateKeyAndSigner w (x509CASlot_KmKeyID slot) of
           Inl err \<Rightarrow> Returns (Some err, slot, [])
         | Inr signer \<Rightarrow>
             (case SignX509CA env signer (px_UpstreamCA w) (UpstreamBundle c) notBefore notAfter of
                Panic \<Rightarrow> Panic
              | Returns (Inl err) \<Rightarrow> Returns (Some err, slot, [])
              | Returns (Inr (x509CA, trustBundle)) \<Rightarrow>
                  (case appendBundle c (px_AppendBundle w) trustBundle None of
                     (Some err, req) \<Rightarrow> Returns (Some err, slot, [req])
                   | (None, req) \<Rightarrow>
                       (let slot' = slot\<lparr>xs_issuedAt := now, xs_x509CA := Some x509CA\<rparr>
                        in case chain0_NotAfter x509CA of
                             Panic \<Rightarrow> Panic
                           | Returns _ \<Rightarrow> Returns (None, slot', [req])))))"

text \<open>
  \<^verbatim>\<open>keyIDFromBytes\<close>: each byte picks a symbol of the 62-symbol alphabet.
\<close>

definition alphabet :: string where
  "alphabet = ''abcdefghijklmnopqrstuvwxyzABCDEFGHIJKLMNOPQRSTUVWXYZ0123456789''"

definition keyIDFromBytes :: "nat list \<Rightarrow> string" where
  "keyIDFromBytes choices = map (\<lambda>choice. alphabet ! (choice mod length alphabet)) choices"

definition newKeyID :: "error + nat list \<Rightarrow> error + string" where
  \<comment> \<open>the argument is the outcome of \<^verbatim>\<open>rand.Read\<close> on a buffer of 32 bytes\<close>
  "newKeyID randRead =
     (case randRead of Inl err \<Rightarrow> Inl err | Inr choices \<Rightarrow> Inr (keyIDFromBytes choices))"

definition newJWTKey :: "error + nat list \<Rightarrow> Signer \<Rightarrow> Time \<Rightarrow> error + JWTKey" where
  "newJWTKey randRead signer expiresAt =
     (case newKeyID randRead of
        Inl err \<Rightarrow> Inl err
      | Inr kid \<Rightarrow> Inr \<lparr>jwt_Signer = signer, jwt_Kid = kid, jwt_NotAfter = expiresAt\<rparr>)"

definition time_ToUnix :: "Time \<Rightarrow> int" where
  \<comment> \<open>\<^verbatim>\<open>Time.Unix()\<close>: the seconds since the epoch, rounded down\<close>
  "time_ToUnix t = t div Second"

definition publicKeyFromJWTKey :: "Env \<Rightarrow> JWTKey \<Rightarrow> error + common_PublicKey" where
  "publicKeyFromJWTKey env jwtKey =
     (case MarshalPKIXPublicKey env (signer_Public (jwt_Signer jwtKey)) of
        Inl err \<Rightarrow> Inl (Wrap err)
      | Inr pkixBytes \<Rightarrow>
          Inr \<lparr>PkixBytes = pkixBytes, pk_Kid = jwt_Kid jwtKey,
               pk_NotAfter = time_ToUnix (jwt_NotAfter jwtKey)\<rparr>)"

record PrepareJWT =
  pj_Now :: Time
  pj_GenerateKeyAndSigner :: "string \<Rightarrow> error + Signer"
  pj_RandRead :: "error + nat list"
  pj_AppendBundle :: "error option"

definition prepareJWTKey ::
  "Env \<Rightarrow> ManagerConfig \<Rightarrow> PrepareJWT \<Rightarrow> jwtKeySlot \<Rightarrow>
   error option \<times> jwtKeySlot \<times> common_Bundle list" where
  "prepareJWTKey env c w slot0 =
     (let slot = jwtKeySlot_Reset slot0;
          now = pj_Now w;
          notAfter = time_Add now (CATTL c)
      in case pj_GenerateKeyAndSigner w (jwtKeySlot_KmKeyID slot) of
           Inl err \<Rightarrow> (Some err, slot, [])
         | Inr signer \<Rightarrow>
             (case newJWTKey (pj_RandRead w) signer notAfter of
                Inl err \<Rightarrow> (Some err, slot, [])
              | Inr jwtKey \<Rightarrow>
                  (case publicKeyFromJWTKey env jwtKey of
                     Inl err \<Rightarrow> (Some err, slot, [])
                   | Inr publicKey \<Rightarrow>
                       (case appendBundle c (pj_AppendBundle w) [] (Some publicKey) of
                          (Some err, req) \<Rightarrow> (Some err, slot, [req])
                        | (None, req) \<Rightarrow>
                            (None, slot\<lparr>js_issuedAt := now, js_jwtKey := Some jwtKey\<rparr>, [req])))))"

subsection \<open>Rotation\<close>

text \<open>
  \<^verbatim>\<open>rotateX509CA\<close> in its three steps. \<open>now\<close> is the clock reading taken at
  the start; \<open>wc\<close> and \<open>wn\<close> are the collaborators' answers for the preparation
  of the current and of the next slot, should they run.
\<close>

definition rotateX509CA_activateNext :: "Time \<Rightarrow> Manager \<Rightarrow> (error option \<times> Manager) outcome" where
  "rotateX509CA_activateNext now m =
     (case x509CASlot_ShouldActivateNext (currentX509CA m) now of
        Panic \<Rightarrow> Panic
      | Returns True \<Rightarrow>
          (let m1 = m\<lparr>currentX509CA := nextX509CA m, nextX509CA := currentX509CA m\<rparr>;
               m2 = m1\<lparr>nextX509CA := x509CASlot_Reset (nextX509CA m1)\<rparr>
           in case activateX509CA m2 of
                Panic \<Rightarrow> Panic
              | Returns m3 \<Rightarrow> Returns (None, m3))
      | Returns False \<Rightarrow> Returns (None, m))"

definition rotateX509CA_prepareNext ::
  "Env \<Rightarrow> ManagerConfig \<Rightarrow> Time \<Rightarrow> PrepareX509 \<Rightarrow> Manager \<Rightarrow> (error option \<times> Manager) outcome" where
  "rotateX509CA_prepareNext env c now wn m =
     (if x509CASlot_IsEmpty (nextX509CA m)
      then case x509CASlot_ShouldPrepareNext (currentX509CA m) now of
             Panic \<Rightarrow> Panic
           | Returns True \<Rightarrow>
               (case prepareX509CA env c wn (nextX509CA m) of
                  Panic \<Rightarrow> Panic
                | Returns (Some err, slot, reqs) \<Rightarrow>
                    Returns (Some err, m\<lparr>nextX509CA := slot, appended := appended m @ reqs\<rparr>)
                | Returns (None, slot, reqs) \<Rightarrow>
                    rotateX509CA_activateNext now
                      (m\<lparr>nextX509CA := slot, appended := appended m @ reqs\<rparr>))
           | Returns False \<Rightarrow> rotateX509CA_activateNext now m
      else rotateX509CA_activateNext now m)"

definition rotateX509CA ::
  "Env \<Rightarrow> ManagerConfig \<Rightarrow> Time \<Rightarrow> PrepareX509 \<Rightarrow> PrepareX509 \<Rightarrow> Manager \<Rightarrow>
   (error option \<times> Manager) outcome" where
  "rotateX509CA env c now wc wn m =
     (if x509CASlot_IsEmpty (currentX509CA m)
      then case prepareX509CA env c wc (currentX509CA m) of
             Panic \<Rightarrow> Panic
           | Returns (Some err, slot, reqs) \<Rightarrow>
               Returns (Some err, m\<lparr>currentX509CA := slot, appended := appended m @ reqs\<rparr>)
           | Returns (None, slot, reqs) \<Rightarrow>
               (case activateX509CA (m\<lparr>currentX509CA := slot, appended := appended m @ reqs\<rparr>) of
                  Panic \<Rightarrow> Panic
                | Returns m1 \<Rightarrow> rotateX509CA_prepareNext env c now wn m1)
      else rotateX509CA_prepareNext env c now wn m)"

definition rotateJWTKey_activateNext :: "Time \<Rightarrow> Manager \<Rightarrow> (error option \<times> Manager) outcome" where
  "rotateJWTKey_activateNext now m =
     (if jwtKeySlot_ShouldActivateNext (currentJWTKey m) now
      then (let m1 = m\<lparr>currentJWTKey := nextJWTKey m, nextJWTKey := currentJWTKey m\<rparr>;
                m2 = m1\<lparr>nextJWTKey := jwtKeySlot_Reset (nextJWTKey m1)\<rparr>
            in case activateJWTKey m2 of
                 Panic \<Rightarrow> Panic
               | Returns m3 \<Rightarrow> Returns (None, m3))
      else Returns (None, m))"

definition rotateJWTKey_prepareNext ::
  "Env \<Rightarrow> ManagerConfig \<Rightarrow> Time \<Rightarrow> PrepareJWT \<Rightarrow> Manager \<Rightarrow> (error option \<times> Manager) outcome" where
  "rotateJWTKey_prepareNext env c now wn m =
     (if jwtKeySlot_IsEmpty (nextJWTKey m) \<and> jwtKeySlot_ShouldPrepareNext (currentJWTKey m) now
      then case prepareJWTKey env c wn (nextJWTKey m) of
             (Some err, slot, reqs) \<Rightarrow>
               Returns (Some err, m\<lparr>nextJWTKey := slot, appended := appended m @ reqs\<rparr>)
           | (None, slot, reqs) \<Rightarrow>
               rotateJWTKey_activateNext now
                 (m\<lparr>nextJWTKey := slot, appended := appended m @ reqs\<rparr>)
      else rotateJWTKey_activateNext now m)"

definition rotateJWTKey ::
  "Env \<Rightarrow> ManagerConfig \<Rightarrow> Time \<Rightarrow> PrepareJWT \<Rightarrow> PrepareJWT \<Rightarrow> Manager \<Rightarrow>
   (error option \<times> Manager) outcome" where
  "rotateJWTKey env c now wc wn m =
     (if jwtKeySlot_IsEmpty (currentJWTKey m)
      then case prepareJWTKey env c wc (currentJWTKey m) of
             (Some err, slot, reqs) \<Rightarrow>
               Returns (Some err, m\<lparr>currentJWTKey := slot, appended := appended m @ reqs\<rparr>)
           | (None, slot, reqs) \<Rightarrow>
               (case activateJWTKey (m\<lparr>currentJWTKey := slot, appended := appended m @ reqs\<rparr>) of
                  Panic \<Rightarrow> Panic
                | Returns m1 \<Rightarrow> rotateJWTKey_prepareNext env c now wn m1)
      else rotateJWTKey_prepareNext env c now wn m)"

text \<open>
  \<^verbatim>\<open>errs.Combine\<close> of the error library the manager imports: the nil errors are
  dropped; no error left gives nil, one error gives that error, several give one
  combined error holding them in order.
\<close>

definition errs_Combine :: "error option list \<Rightarrow> error option" where
  "errs_Combine es =
     (case List.map_filter (\<lambda>e. e) es of
        [] \<Rightarrow> None
      | [e] \<Rightarrow> Some e
      | sanitized \<Rightarrow> Some (combinedError sanitized))"

text \<open>The collaborators' answers during one rotation tick.\<close>

record Tick =
  t_NowX509 :: Time
  t_CurrentX509 :: PrepareX509
  t_NextX509 :: PrepareX509
  t_NowJWT :: Time
  t_CurrentJWT :: PrepareJWT
  t_NextJWT :: PrepareJWT

definition rotate :: "Env \<Rightarrow> ManagerConfig \<Rightarrow> Tick \<Rightarrow> Manager \<Rightarrow> (error option \<times> Manager) outcome" where
  "rotate env c t m =
     (case rotateX509CA env c (t_NowX509 t) (t_CurrentX509 t) (t_NextX509 t) m of
        Panic \<Rightarrow> Panic
      | Returns (x509CAErr, m1) \<Rightarrow>
          (case rotateJWTKey env c (t_NowJWT t) (t_CurrentJWT t) (t_NextJWT t) m1 of
             Panic \<Rightarrow> Panic
           | Returns (jwtKeyErr, m2) \<Rightarrow> Returns (errs_Combine [x509CAErr, jwtKeyErr], m2)))"


text \<open>
  The two immediate activations of \<^verbatim>\<open>loadJournal\<close>: a loaded current slot is
  activated at once unless it is already past its activation threshold.
\<close>

definition activateLoadedX509CA :: "Time \<Rightarrow> Manager \<Rightarrow> Manager outcome" where
  "activateLoadedX509CA now m =
     (if \<not> x509CASlot_IsEmpty (currentX509CA m)
      then case x509CASlot_ShouldActivateNext (currentX509CA m) now of
             Panic \<Rightarrow> Panic
           | Returns True \<Rightarrow> Returns m
           | Returns False \<Rightarrow> activateX509CA m
      else Returns m)"

definition activateLoadedJWTKey :: "Time \<Rightarrow> Manager \<Rightarrow> Manager outcome" where
  "activateLoadedJWTKey now m =
     (if \<not> jwtKeySlot_IsEmpty (currentJWTKey m)
         \<and> \<not> jwtKeySlot_ShouldActivateNext (currentJWTKey m) now
      then activateJWTKey m
      else Returns m)"

text \<open>
  \<^verbatim>\<open>loadJournal\<close>: \<open>migrated\<close> is the outcome of the legacy migration,
  \<open>journal\<close> the outcome of \<^verbatim>\<open>LoadJournal\<close> with the entries it holds. The
  X509 slots are loaded and activated first, then the JWT slots; until then the two JWT
  pointers are nil, for which the record holds two slots with no id and no key.
\<close>

definition loadJournal ::
  "Env \<Rightarrow> Time \<Rightarrow> error + bool \<Rightarrow> error + JournalEntries \<Rightarrow> (error + Manager) outcome" where
  "loadJournal env now migrated journal =
     (case migrated of
        Inl err \<Rightarrow> Returns (Inl (Errorf ''failed to migrate old JSON data: %v'' err))
      | Inr ok \<Rightarrow>
     (case journal of
        Inl err \<Rightarrow> Returns (Inl err)
      | Inr entries \<Rightarrow>
     (case loadX509CASlots env (X509CAs entries) of
        Inl err \<Rightarrow> Returns (Inl err)
      | Inr xp \<Rightarrow>
     (case switchX509CASlots xp of
        Panic \<Rightarrow> Panic
      | Returns (cx, nx) \<Rightarrow>
     (case activateLoadedX509CA now
             \<lparr>currentX509CA = cx, nextX509CA = nx,
              currentJWTKey = newJWTKeySlot [], nextJWTKey = newJWTKeySlot [],
              sink_X509CA = [], sink_JWTKey = [], appended = []\<rparr> of
        Panic \<Rightarrow> Panic
      | Returns m1 \<Rightarrow>
     (case loadJWTKeySlots env (JwtKeys entries) of
        Inl err \<Rightarrow> Returns (Inl err)
      | Inr jp \<Rightarrow>
     (case switchJWTKeySlots jp of
        Panic \<Rightarrow> Panic
      | Returns (cj, nj) \<Rightarrow>
     (case activateLoadedJWTKey now (m1\<lparr>currentJWTKey := cj, nextJWTKey := nj\<rparr>) of
        Panic \<Rightarrow> Panic
      | Returns m2 \<Rightarrow> Returns (Inr m2)))))))))"

definition Initialize ::
  "Env \<Rightarrow> ManagerConfig \<Rightarrow> Time \<Rightarrow> error + bool \<Rightarrow> error + JournalEntries \<Rightarrow> Tick \<Rightarrow>
   (error + Manager) outcome" where
  "Initialize env c now migrated journal t =
     (case loadJournal env now migrated journal of
        Panic \<Rightarrow> Panic
      | Returns (Inl err) \<Rightarrow> Returns (Inl err)
      | Returns (Inr m) \<Rightarrow>
          (case rotate env c t m of
             Panic \<Rightarrow> Panic
           | Returns (Some err, m') \<Rightarrow> Returns (Inl err)
           | Returns (None, m') \<Rightarrow> Returns (Inr m')))"

section \<open>Concrete collaborators and inputs\<close>

text \<open>
  A small environment on which the definitions above can be run. A certificate is
  encoded by two numbers, its expiry in seconds and its public key; a list of
  certificates is the concatenation of such pairs; a public key is encoded by itself.
  The key manager holds key 1 under \<^verbatim>\<open>x509-CA-A\<close> and key 2 under
  \<^verbatim>\<open>JWT-Signer-A\<close>, and nothing for slot B.
\<close>

definition pairCert :: "nat \<Rightarrow> nat \<Rightarrow> x509_Certificate" where
  "pairCert n k = \<lparr>cert_Raw = [n, k], cert_NotAfter = time_Unix (int n), cert_PublicKey = k\<rparr>"

fun pairCerts :: "der \<Rightarrow> error + x509_Certificate list" where
  "pairCerts [] = Inr []"
| "pairCerts [n] = Inl (Error ''asn1: syntax error: truncated'')"
| "pairCerts (n # k # rest) =
     (case pairCerts rest of Inl err \<Rightarrow> Inl err | Inr certs \<Rightarrow> Inr (pairCert n k # certs))"

definition pairEnv :: Env where
  "pairEnv =
     \<lparr>ParseCertificate =
        (\<lambda>d. case d of [n, k] \<Rightarrow> Inr (pairCert n k) | _ \<Rightarrow> Inl (Error ''asn1: syntax error'')),
      ParseCertificates = pairCerts,
      ParsePKIXPublicKey =
        (\<lambda>d. case d of [k] \<Rightarrow> Inr k | _ \<Rightarrow> Inl (Error ''x509: failed to parse public key'')),
      PublicKeyEqual = (\<lambda>a b. Inr (a = b)),
      GetPublicKey =
        (\<lambda>keyID. if keyID = ''x509-CA-A'' then Inr (Some [1])
                  else if keyID = ''JWT-Signer-A'' then Inr (Some [2])
                  else Inr None),
      MarshalPKIXPublicKey = (\<lambda>k. Inr [k]),
      CreateCertificateRequest = (\<lambda>signer. Inr [signer_Public signer]),
      CreateServerCATemplate =
        (\<lambda>csr notBefore notAfter.
           Inr \<lparr>cert_Raw = [], cert_NotAfter = notAfter, cert_PublicKey = sum_list csr\<rparr>),
      CreateCertificate =
        (\<lambda>template signer.
           Inr [nat (cert_NotAfter template div Second), signer_Public signer])\<rparr>"

definition signerA :: Signer where
  "signerA = \<lparr>signer_keyID = ''x509-CA-A'', signer_Public = 1\<rparr>"

text \<open>
  A slot whose certificate expired (at the epoch) twelve hours before the slot was
  issued.
\<close>

definition expiredBeforeIssue :: x509CASlot where
  "expiredBeforeIssue =
     \<lparr>xs_id = ''A'', xs_issuedAt = time_Unix 43200,
      xs_x509CA = Some \<lparr>ca_Signer = signerA, ca_Chain = [pairCert 0 1],
                        ca_IsIntermediate = False\<rparr>\<rparr>"

text \<open>A slot issued at the epoch whose certificate lives for a day.\<close>

definition oneDaySlot :: x509CASlot where
  "oneDaySlot =
     \<lparr>xs_id = ''A'', xs_issuedAt = time_Unix 0,
      xs_x509CA = Some \<lparr>ca_Signer = signerA, ca_Chain = [pairCert 86400 1],
                        ca_IsIntermediate = False\<rparr>\<rparr>"

text \<open>
  An upstream CA that answers in the legacy shape with the certificate (500, 1) and the
  bundle of an intermediate (600, 7) and a root (700, 8).
\<close>

definition legacyResponse :: SubmitCSRResponse where
  "legacyResponse =
     \<lparr>resp_SignedCertificate = None, DEPRECATEDCert = [500, 1],
      DEPRECATEDUpstreamTrustBundle = [600, 7, 700, 8]\<rparr>"


text \<open>
  What pruning is to remove, stated apart from the loops of \<^verbatim>\<open>pruneBundle\<close> and
  to be compared with them: a root CA counts as expired when its bytes parse and some
  certificate of its chain has a \<open>NotAfter\<close> at or before the clock reading minus
  the safety threshold; a JWT signing key counts as expired when its \<open>NotAfter\<close>
  (in seconds) is at or before that instant. The kept roots and keys are the others, in
  their order. A count of seconds is in the range of \<^verbatim>\<open>time.Unix\<close> when it is an
  int64 for which the addition in \<^verbatim>\<open>time.Unix\<close> does not wrap around.
\<close>

definition unixInRange :: "int \<Rightarrow> bool" where
  "unixInRange sec = (- (2 ^ 63) \<le> sec \<and> sec \<le> maxInt64 - unixToInternal)"

definition expiredRootCA :: "Env \<Rightarrow> Time \<Rightarrow> common_Certificate \<Rightarrow> bool" where
  "expiredRootCA env clockNow rootCA =
     (case ParseCertificates env (DerBytes rootCA) of
        Inl err \<Rightarrow> False
      | Inr certs \<Rightarrow> (\<exists>cert \<in> set certs. cert_NotAfter cert \<le> clockNow - safetyThreshold))"

definition expiredJwtSigningKey :: "Time \<Rightarrow> common_PublicKey \<Rightarrow> bool" where
  "expiredJwtSigningKey clockNow k = (pk_NotAfter k * Second \<le> clockNow - safetyThreshold)"

definition keptRootCas :: "Env \<Rightarrow> Time \<Rightarrow> common_Bundle \<Rightarrow> common_Certificate list" where
  "keptRootCas env clockNow b = filter (\<lambda>r. \<not> expiredRootCA env clockNow r) (RootCas b)"

definition keptJwtSigningKeys :: "Time \<Rightarrow> common_Bundle \<Rightarrow> common_PublicKey list" where
  "keptJwtSigningKeys clockNow b =
     filter (\<lambda>k. \<not> expiredJwtSigningKey clockNow k) (JwtSigningKeys b)"

text \<open>
  A stored bundle with two roots and two keys, read at 200000 seconds (the cutoff is then
  at 113600 seconds). The first root's chain holds a certificate that expired at 100000
  seconds and one that expires at 150000 seconds; the second root and the second key
  expire at 150000 seconds; the first key expired at 100000 seconds.
\<close>

definition mixedRoot :: common_Certificate where
  "mixedRoot = \<lparr>DerBytes = [100000, 5, 150000, 6]\<rparr>"

definition freshRoot :: common_Certificate where
  "freshRoot = \<lparr>DerBytes = [150000, 7]\<rparr>"

definition staleKey :: common_PublicKey where
  "staleKey = \<lparr>PkixBytes = [3], pk_Kid = ''old'', pk_NotAfter = 100000\<rparr>"

definition freshKey :: common_PublicKey where
  "freshKey = \<lparr>PkixBytes = [4], pk_Kid = ''new'', pk_NotAfter = 150000\<rparr>"

definition mixedStore :: DataStore where
  "mixedStore =
     \<lparr>ds_bundle = Some \<lparr>TrustDomainId = ''spiffe://example.org'',
                         RootCas = [mixedRoot, freshRoot],
                         JwtSigningKeys = [staleKey, freshKey]\<rparr>,
      ds_updates = []\<rparr>"

text \<open>A stored bundle whose only root has expired, beside a key that has not.\<close>

definition staleStore :: DataStore where
  "staleStore =
     \<lparr>ds_bundle = Some \<lparr>TrustDomainId = ''spiffe://example.org'',
                         RootCas = [\<lparr>DerBytes = [100000, 5]\<rparr>],
                         JwtSigningKeys = [freshKey]\<rparr>,
      ds_updates = []\<rparr>"

text \<open>
  A stored bundle with an expired root, a root that has not expired, and a root whose
  bytes do not parse, beside an expired key and a key that has not expired.
\<close>

definition garbledRoot :: common_Certificate where
  "garbledRoot = \<lparr>DerBytes = [7]\<rparr>"

definition garbledStore :: DataStore where
  "garbledStore =
     \<lparr>ds_bundle = Some \<lparr>TrustDomainId = ''spiffe://example.org'',
                         RootCas = [mixedRoot, freshRoot, garbledRoot],
                         JwtSigningKeys = [staleKey, freshKey]\<rparr>,
      ds_updates = []\<rparr>"

section \<open>Slot ids and journal entries\<close>


text \<open>
  A journal entry is usable when its loader gives a slot. Twin entries: the journal's
  last two entries of a kind are both usable and carry the same slot id.
\<close>

definition usableX509CAEntry :: "Env \<Rightarrow> X509CAEntry \<Rightarrow> bool" where
  "usableX509CAEntry env e =
     (case loadX509CASlotFromEntry env e of Loaded slot \<Rightarrow> True | _ \<Rightarrow> False)"

definition usableJWTKeyEntry :: "Env \<Rightarrow> JWTKeyEntry \<Rightarrow> bool" where
  "usableJWTKeyEntry env e =
     (case loadJWTKeySlotFromEntry env e of Loaded slot \<Rightarrow> True | _ \<Rightarrow> False)"



section \<open>Concrete journals and ticks\<close>

text \<open>
  Journal entries for the environment above. \<open>entryA\<close> and \<open>jwtEntryA\<close> match the
  keys the key manager holds for slot A (issued at the epoch, expiring after a day);
  \<open>entryB\<close> and \<open>jwtEntryB\<close> name slot B, for which the key manager holds
  nothing. \<open>skewedEntry\<close> records an issuance time of 12h for a certificate that
  expired at the epoch.
\<close>

definition entryA :: X509CAEntry where
  "entryA = \<lparr>xe_SlotId = ''A'', xe_IssuedAt = 0, xe_Chain = [[86400, 1]],
             xe_IsIntermediate = False\<rparr>"

definition entryB :: X509CAEntry where
  "entryB = \<lparr>xe_SlotId = ''B'', xe_IssuedAt = 43200, xe_Chain = [[129600, 9]],
             xe_IsIntermediate = False\<rparr>"

definition skewedEntry :: X509CAEntry where
  "skewedEntry = \<lparr>xe_SlotId = ''A'', xe_IssuedAt = 43200, xe_Chain = [[0, 1]],
                  xe_IsIntermediate = False\<rparr>"

definition jwtEntryA :: JWTKeyEntry where
  "jwtEntryA = \<lparr>je_SlotId = ''A'', je_IssuedAt = 0, je_NotAfter = 86400, je_Kid = ''kidA'',
                je_PublicKey = [2]\<rparr>"

definition jwtEntryB :: JWTKeyEntry where
  "jwtEntryB = \<lparr>je_SlotId = ''B'', je_IssuedAt = 43200, je_NotAfter = 129600,
                je_Kid = ''kidB'', je_PublicKey = [9]\<rparr>"

definition exampleConfig :: ManagerConfig where
  "exampleConfig =
     NewManager \<lparr>TrustDomain = ''spiffe://example.org'', UpstreamBundle = False, CATTL = 0\<rparr>"

definition jwtSignerA :: Signer where
  "jwtSignerA = \<lparr>signer_keyID = ''JWT-Signer-A'', signer_Public = 2\<rparr>"

definition signerB :: Signer where
  "signerB = \<lparr>signer_keyID = ''x509-CA-B'', signer_Public = 9\<rparr>"

definition jwtSignerB :: Signer where
  "jwtSignerB = \<lparr>signer_keyID = ''JWT-Signer-B'', signer_Public = 8\<rparr>"

definition kidBytes :: "nat list" where
  "kidBytes = replicate 32 17"

text \<open>
  Preparations as the collaborators may answer them: a key manager that is down, a
  self-signed X509 CA for slot B at 80000 seconds, JWT keys for slot A at 3600 seconds
  and for slot B at 80000 seconds, and a JWT preparation whose bundle append fails.
\<close>

definition keyManagerDown :: PrepareX509 where
  "keyManagerDown =
     \<lparr>px_Now = time_Unix 3600,
      px_GenerateKeyAndSigner = (\<lambda>keyID. Inl (Error ''key manager unavailable'')),
      px_UpstreamCA = None, px_AppendBundle = None\<rparr>"

definition selfSignB :: PrepareX509 where
  "selfSignB =
     \<lparr>px_Now = time_Unix 80000,
      px_GenerateKeyAndSigner = (\<lambda>keyID. Inr \<lparr>signer_keyID = keyID, signer_Public = 9\<rparr>),
      px_UpstreamCA = None, px_AppendBundle = None\<rparr>"

definition newKeyA :: PrepareJWT where
  "newKeyA =
     \<lparr>pj_Now = time_Unix 3600,
      pj_GenerateKeyAndSigner = (\<lambda>keyID. Inr \<lparr>signer_keyID = keyID, signer_Public = 2\<rparr>),
      pj_RandRead = Inr kidBytes, pj_AppendBundle = None\<rparr>"

definition newKeyB :: PrepareJWT where
  "newKeyB =
     \<lparr>pj_Now = time_Unix 80000,
      pj_GenerateKeyAndSigner = (\<lambda>keyID. Inr \<lparr>signer_keyID = keyID, signer_Public = 8\<rparr>),
      pj_RandRead = Inr kidBytes, pj_AppendBundle = None\<rparr>"

definition appendFails :: PrepareJWT where
  "appendFails =
     \<lparr>pj_Now = time_Unix 3600,
      pj_GenerateKeyAndSigner = (\<lambda>keyID. Inr \<lparr>signer_keyID = keyID, signer_Public = 2\<rparr>),
      pj_RandRead = Inr kidBytes, pj_AppendBundle = Some (Error ''datastore unavailable'')\<rparr>"

definition firstTick :: Tick where
  "firstTick =
     \<lparr>t_NowX509 = time_Unix 3600, t_CurrentX509 = keyManagerDown, t_NextX509 = keyManagerDown,
      t_NowJWT = time_Unix 3600, t_CurrentJWT = newKeyA, t_NextJWT = newKeyB\<rparr>"

definition lateTick :: Tick where
  "lateTick =
     \<lparr>t_NowX509 = time_Unix 80000, t_CurrentX509 = keyManagerDown, t_NextX509 = selfSignB,
      t_NowJWT = time_Unix 80000, t_CurrentJWT = newKeyA, t_NextJWT = newKeyB\<rparr>"

definition failingTick :: Tick where
  "failingTick =
     \<lparr>t_NowX509 = time_Unix 3600, t_CurrentX509 = keyManagerDown, t_NextX509 = keyManagerDown,
      t_NowJWT = time_Unix 3600, t_CurrentJWT = appendFails, t_NextJWT = appendFails\<rparr>"

text \<open>A manager with four empty slots, as a journal without entries leaves it.\<close>

definition coldManager :: Manager where
  "coldManager =
     \<lparr>currentX509CA = newX509CASlot ''A'', nextX509CA = newX509CASlot ''B'',
      currentJWTKey = newJWTKeySlot ''A'', nextJWTKey = newJWTKeySlot ''B'',
      sink_X509CA = [], sink_JWTKey = [], appended = []\<rparr>"

text \<open>
  A JWT slot whose key expired (at the epoch) twelve hours before the slot was issued.
\<close>

definition expiredBeforeIssueJWT :: jwtKeySlot where
  "expiredBeforeIssueJWT =
     \<lparr>js_id = ''A'', js_issuedAt = time_Unix 43200,
      js_jwtKey = Some \<lparr>jwt_Signer = jwtSignerA, jwt_Kid = ''kidA'', jwt_NotAfter = time_Unix 0\<rparr>\<rparr>"

text \<open>
  The material of the runs below: the CA loaded from \<open>entryA\<close>, the self-signed CA
  of slot B, the JWT keys prepared for slot A and for slot B, and the bundle appends
  they cause.
\<close>

definition caA :: X509CA where
  "caA = \<lparr>ca_Signer = signerA, ca_Chain = [pairCert 86400 1], ca_IsIntermediate = False\<rparr>"

definition caB :: X509CA where
  "caB = \<lparr>ca_Signer = signerB, ca_Chain = [pairCert 166400 9], ca_IsIntermediate = False\<rparr>"

definition jwtKeyA :: JWTKey where
  "jwtKeyA = \<lparr>jwt_Signer = jwtSignerA, jwt_Kid = keyIDFromBytes kidBytes,
              jwt_NotAfter = time_Unix 90000\<rparr>"

definition jwtKeyB :: JWTKey where
  "jwtKeyB = \<lparr>jwt_Signer = jwtSignerB, jwt_Kid = keyIDFromBytes kidBytes,
              jwt_NotAfter = time_Unix 166400\<rparr>"

definition appendOfKeyA :: common_Bundle where
  "appendOfKeyA =
     \<lparr>TrustDomainId = ''spiffe://example.org'', RootCas = [],
      JwtSigningKeys = [\<lparr>PkixBytes = [2], pk_Kid = keyIDFromBytes kidBytes,
                         pk_NotAfter = 90000\<rparr>]\<rparr>"

definition appendOfKeyB :: common_Bundle where
  "appendOfKeyB =
     \<lparr>TrustDomainId = ''spiffe://example.org'', RootCas = [],
      JwtSigningKeys = [\<lparr>PkixBytes = [8], pk_Kid = keyIDFromBytes kidBytes,
                         pk_NotAfter = 166400\<rparr>]\<rparr>"

definition appendOfCaB :: common_Bundle where
  "appendOfCaB =
     \<lparr>TrustDomainId = ''spiffe://example.org'', RootCas = [\<lparr>DerBytes = [166400, 9]\<rparr>],
      JwtSigningKeys = []\<rparr>"

text \<open>
  The manager after \<open>Initialize\<close> at 3600 seconds on a journal holding
  \<open>entryA\<close> alone (the X509 CA is recovered and activated, a JWT key is prepared and
  activated), and after the tick at 80000 seconds, which prepares slot B of both kinds
  and swaps.
\<close>

definition stateAfterInitialize :: Manager where
  "stateAfterInitialize =
     \<lparr>currentX509CA = \<lparr>xs_id = ''A'', xs_issuedAt = time_Unix 0, xs_x509CA = Some caA\<rparr>,
      nextX509CA = newX509CASlot ''B'',
      currentJWTKey = \<lparr>js_id = ''A'', js_issuedAt = time_Unix 3600, js_jwtKey = Some jwtKeyA\<rparr>,
      nextJWTKey = newJWTKeySlot ''B'',
      sink_X509CA = [caA], sink_JWTKey = [jwtKeyA], appended = [appendOfKeyA]\<rparr>"

definition stateAfterSwap :: Manager where
  "stateAfterSwap =
     \<lparr>currentX509CA = \<lparr>xs_id = ''B'', xs_issuedAt = time_Unix 80000, xs_x509CA = Some caB\<rparr>,
      nextX509CA = \<lparr>xs_id = ''A'', xs_issuedAt = time_Unix 0, xs_x509CA = None\<rparr>,
      currentJWTKey = \<lparr>js_id = ''B'', js_issuedAt = time_Unix 80000, js_jwtKey = Some jwtKeyB\<rparr>,
      nextJWTKey = \<lparr>js_id = ''A'', js_issuedAt = time_Unix 3600, js_jwtKey = None\<rparr>,
      sink_X509CA = [caA, caB], sink_JWTKey = [jwtKeyA, jwtKeyB],
      appended = [appendOfKeyA, appendOfCaB, appendOfKeyB]\<rparr>"

text \<open>
  The manager after \<open>Initialize\<close> at 3600 seconds on a journal that holds
  \<open>entryA\<close> twice: both X509 slots are the slot loaded from it.
\<close>

definition twinState :: Manager where
  "twinState =
     \<lparr>currentX509CA = \<lparr>xs_id = ''A'', xs_issuedAt = time_Unix 0, xs_x509CA = Some caA\<rparr>,
      nextX509CA = \<lparr>xs_id = ''A'', xs_issuedAt = time_Unix 0, xs_x509CA = Some caA\<rparr>,
      currentJWTKey = \<lparr>js_id = ''A'', js_issuedAt = time_Unix 3600, js_jwtKey = Some jwtKeyA\<rparr>,
      nextJWTKey = newJWTKeySlot ''B'',
      sink_X509CA = [caA], sink_JWTKey = [jwtKeyA], appended = [appendOfKeyA]\<rparr>"




section \<open>Threshold arithmetic\<close>

lemma time_Sub_nonneg:
  assumes "issuedAt \<le> notAfter"
  shows "0 \<le> time_Sub notAfter issuedAt" and "time_Sub notAfter issuedAt \<noteq> minDuration"
  using assms by (auto simp: time_Sub_def Let_def maxDuration_def minDuration_def)

lemma quo_neg_nonneg:
  assumes "0 \<le> l" and "l \<noteq> minDuration" and "0 < k"
  shows "quo_Duration (neg_Duration l) k = - (l div k)"
proof (cases "l = 0")
  case True
  then show ?thesis by (simp add: quo_Duration_def neg_Duration_def minDuration_def)
next
  case False
  with assms have "0 < l" by simp
  with assms show ?thesis by (auto simp: quo_Duration_def neg_Duration_def)
qed

lemma thresholds_ordered:
  assumes "issuedAt \<le> notAfter"
  shows "preparationThreshold issuedAt notAfter \<le> activationThreshold issuedAt notAfter"
proof -
  define l where "l = time_Sub notAfter issuedAt"
  have l: "0 \<le> l" "l \<noteq> minDuration"
    using time_Sub_nonneg [OF assms] by (simp_all add: l_def)
  have "l div 6 \<le> l div 2"
    using l(1) by (simp add: zdiv_mono2)
  then show ?thesis
    using l by (simp add: preparationThreshold_def activationThreshold_def time_Add_def
        quo_neg_nonneg l_def [symmetric])
qed

lemmas time_defs =
  time_After_def time_Add_def time_Sub_def time_Unix_def neg_Duration_def quo_Duration_def
  Second_def Hour_def maxDuration_def minDuration_def maxInt64_def unixToInternal_def Let_def

lemmas threshold_defs = activationThreshold_def preparationThreshold_def

text \<open>
  C3 (as stated): for every \<open>now\<close> and every non-empty X509 slot, with any
  \<open>issuedAt\<close> and \<open>NotAfter\<close>, \<open>ShouldActivateNext\<close> implies
  \<open>ShouldPrepareNext\<close>. This fails for a slot whose certificate expires before the
  slot's issuance time: the lifetime is negative, and the two thresholds change places.
  With issuance at 12h and expiry at 0h the activation threshold is 2h and the
  preparation threshold is 6h; at 3h the slot asks for activation and not for
  preparation.
\<close>

theorem ShouldActivateNext_without_ShouldPrepareNext:
  "\<not> x509CASlot_IsEmpty expiredBeforeIssue
   \<and> x509CASlot_ShouldActivateNext expiredBeforeIssue (time_Unix 10800) = Returns True
   \<and> x509CASlot_ShouldPrepareNext expiredBeforeIssue (time_Unix 10800) = Returns False"
  by (simp add: expiredBeforeIssue_def pairCert_def x509CASlot_IsEmpty_def
      x509CASlot_ShouldActivateNext_def x509CASlot_ShouldPrepareNext_def chain0_NotAfter_def
      threshold_defs time_defs)

text \<open>
  C3 (amended): for every \<open>now\<close> and every non-empty X509 slot whose leaf certificate
  does not expire before the slot's issuance time, \<open>ShouldActivateNext\<close> returning
  true implies \<open>ShouldPrepareNext\<close> returning true.
\<close>

theorem ShouldActivateNext_implies_ShouldPrepareNext:
  assumes "xs_x509CA s = Some ca" and "ca_Chain ca = c # cs"
    and "xs_issuedAt s \<le> cert_NotAfter c"
    and "x509CASlot_ShouldActivateNext s now = Returns True"
  shows "x509CASlot_ShouldPrepareNext s now = Returns True"
proof -
  have "activationThreshold (xs_issuedAt s) (cert_NotAfter c) < now"
    using assms(1,2,4)
    by (simp add: x509CASlot_ShouldActivateNext_def chain0_NotAfter_def time_After_def)
  with thresholds_ordered [OF assms(3)]
  have "preparationThreshold (xs_issuedAt s) (cert_NotAfter c) < now" by simp
  then show ?thesis
    using assms(1,2)
    by (simp add: x509CASlot_ShouldPrepareNext_def chain0_NotAfter_def time_After_def)
qed

theorem ShouldActivateNext_implies_ShouldPrepareNext_witness:
  "x509CASlot_ShouldActivateNext oneDaySlot (time_Unix 80000) = Returns True
   \<and> x509CASlot_ShouldPrepareNext oneDaySlot (time_Unix 80000) = Returns True"
proof -
  have a: "xs_x509CA oneDaySlot =
             Some \<lparr>ca_Signer = signerA, ca_Chain = [pairCert 86400 1], ca_IsIntermediate = False\<rparr>"
    by (simp add: oneDaySlot_def)
  have b: "ca_Chain \<lparr>ca_Signer = signerA, ca_Chain = [pairCert 86400 1],
                     ca_IsIntermediate = False\<rparr> = pairCert 86400 1 # []"
    by simp
  have c: "xs_issuedAt oneDaySlot \<le> cert_NotAfter (pairCert 86400 1)"
    by (simp add: oneDaySlot_def pairCert_def time_defs)
  have d: "x509CASlot_ShouldActivateNext oneDaySlot (time_Unix 80000) = Returns True"
    by (simp add: oneDaySlot_def pairCert_def x509CASlot_ShouldActivateNext_def
        chain0_NotAfter_def threshold_defs time_defs)
  from ShouldActivateNext_implies_ShouldPrepareNext [OF a b c d] d show ?thesis by simp
qed

text \<open>
  C8: for every \<open>now\<close>, an empty JWT slot answers true to \<open>ShouldPrepareNext\<close>
  and to \<open>ShouldActivateNext\<close>, and an empty X509 slot answers false to both.
\<close>

theorem empty_slot_thresholds:
  "(jwtKeySlot_IsEmpty j \<longrightarrow>
      jwtKeySlot_ShouldPrepareNext j now \<and> jwtKeySlot_ShouldActivateNext j now)
   \<and> (x509CASlot_IsEmpty x \<longrightarrow>
      x509CASlot_ShouldPrepareNext x now = Returns False
      \<and> x509CASlot_ShouldActivateNext x now = Returns False)"
  by (simp add: jwtKeySlot_IsEmpty_def jwtKeySlot_ShouldPrepareNext_def
      jwtKeySlot_ShouldActivateNext_def x509CASlot_IsEmpty_def
      x509CASlot_ShouldPrepareNext_def x509CASlot_ShouldActivateNext_def)

theorem empty_slot_thresholds_witness:
  "jwtKeySlot_IsEmpty (newJWTKeySlot ''A'')
   \<and> jwtKeySlot_ShouldPrepareNext (newJWTKeySlot ''A'') (time_Unix 10800)
   \<and> jwtKeySlot_ShouldActivateNext (newJWTKeySlot ''A'') (time_Unix 10800)
   \<and> x509CASlot_IsEmpty (newX509CASlot ''A'')
   \<and> x509CASlot_ShouldPrepareNext (newX509CASlot ''A'') (time_Unix 10800) = Returns False
   \<and> x509CASlot_ShouldActivateNext (newX509CASlot ''A'') (time_Unix 10800) = Returns False"
proof -
  have j: "jwtKeySlot_IsEmpty (newJWTKeySlot ''A'')"
    by (simp add: jwtKeySlot_IsEmpty_def newJWTKeySlot_def)
  have x: "x509CASlot_IsEmpty (newX509CASlot ''A'')"
    by (simp add: x509CASlot_IsEmpty_def newX509CASlot_def)
  show ?thesis
    using j x empty_slot_thresholds
      [of "newJWTKeySlot ''A''" "time_Unix 10800" "newX509CASlot ''A''"]
    by simp
qed

section \<open>Upstream signing\<close>

text \<open>
  C6: parsing a legacy upstream response (no \<open>SignedCertificate\<close>) whose certificate
  parses to \<open>C\<close> and whose upstream trust bundle parses to \<open>B\<close> fails when
  \<open>B\<close> is empty; otherwise it returns the chain \<open>C\<close> followed by all of \<open>B\<close>
  but its last element, and the trust bundle holding the last element of \<open>B\<close> only.
\<close>

theorem parseUpstreamCACSRResponse_legacy:
  assumes "resp_SignedCertificate resp = None"
    and "ParseCertificate env (DEPRECATEDCert resp) = Inr C"
    and "ParseCertificates env (DEPRECATEDUpstreamTrustBundle resp) = Inr B"
  shows "parseUpstreamCACSRResponse env resp =
           (if B = [] then Inl (Error ''upstream CA returned an empty trust bundle'')
            else Inr (C # butlast B, [last B]))"
proof (cases B rule: rev_cases)
  case Nil
  with assms show ?thesis by (simp add: parseUpstreamCACSRResponse_def)
next
  case (snoc ys y)
  with assms show ?thesis
    by (cases ys) (simp_all add: parseUpstreamCACSRResponse_def)
qed

theorem parseUpstreamCACSRResponse_legacy_witness:
  "parseUpstreamCACSRResponse pairEnv legacyResponse =
     Inr ([pairCert 500 1, pairCert 600 7], [pairCert 700 8])"
proof -
  have a: "resp_SignedCertificate legacyResponse = None"
    by (simp add: legacyResponse_def)
  have b: "ParseCertificate pairEnv (DEPRECATEDCert legacyResponse) = Inr (pairCert 500 1)"
    by (simp add: legacyResponse_def pairEnv_def)
  have c: "ParseCertificates pairEnv (DEPRECATEDUpstreamTrustBundle legacyResponse) =
             Inr [pairCert 600 7, pairCert 700 8]"
    by (simp add: legacyResponse_def pairEnv_def)
  show ?thesis
    using parseUpstreamCACSRResponse_legacy [OF a b c] by simp
qed



section \<open>Pruning\<close>

lemma chainExpired_iff:
  "chainExpired now certs = (\<exists>cert \<in> set certs. cert_NotAfter cert \<le> now)"
  by (induction certs) (auto simp: time_After_def)

lemma expiredRootCA_parsed:
  "ParseCertificates env (DerBytes r) = Inr certs \<Longrightarrow>
   expiredRootCA env clockNow r = chainExpired (clockNow - safetyThreshold) certs"
  by (simp add: expiredRootCA_def chainExpired_iff)

lemma pruneRootCAs_parsed:
  assumes "\<forall>r \<in> set roots. \<exists>certs. ParseCertificates env (DerBytes r) = Inr certs"
  shows "pruneRootCAs (ParseCertificates env) (clockNow - safetyThreshold) roots new changed =
           Inr (new @ filter (\<lambda>r. \<not> expiredRootCA env clockNow r) roots,
                changed \<or> (\<exists>r \<in> set roots. expiredRootCA env clockNow r))"
  using assms
proof (induction roots arbitrary: new changed)
  case Nil
  then show ?case by simp
next
  case (Cons r roots)
  then obtain certs where c: "ParseCertificates env (DerBytes r) = Inr certs" by auto
  from Cons.prems have rest: "\<forall>r \<in> set roots. \<exists>certs. ParseCertificates env (DerBytes r) = Inr certs"
    by simp
  show ?case
    using c Cons.IH [OF rest] by (simp add: expiredRootCA_parsed [OF c])
qed

lemma pruneRootCAs_result:
  "pruneRootCAs (ParseCertificates env) (clockNow - safetyThreshold) roots new changed = Inr (kept, ch)
   \<Longrightarrow> kept = new @ filter (\<lambda>r. \<not> expiredRootCA env clockNow r) roots"
proof (induction roots arbitrary: new changed)
  case Nil
  then show ?case by simp
next
  case (Cons r roots)
  show ?case
  proof (cases "ParseCertificates env (DerBytes r)")
    case (Inl err)
    with Cons.prems show ?thesis by simp
  next
    case (Inr certs)
    show ?thesis
    proof (cases "chainExpired (clockNow - safetyThreshold) certs")
      case True
      with Inr Cons.prems
      have "pruneRootCAs (ParseCertificates env) (clockNow - safetyThreshold) roots new True
              = Inr (kept, ch)" by simp
      from Cons.IH [OF this] True show ?thesis
        by (simp add: expiredRootCA_parsed [OF Inr])
    next
      case False
      with Inr Cons.prems
      have "pruneRootCAs (ParseCertificates env) (clockNow - safetyThreshold) roots
              (new @ [r]) changed = Inr (kept, ch)" by simp
      from Cons.IH [OF this] False show ?thesis
        by (simp add: expiredRootCA_parsed [OF Inr])
    qed
  qed
qed

lemma pruneRootCAs_unparsable:
  assumes "\<exists>r \<in> set roots. \<exists>e. parse (DerBytes r) = Inl e"
  shows "\<exists>err. pruneRootCAs parse now roots new changed = Inl err"
  using assms
proof (induction roots arbitrary: new changed)
  case Nil
  then show ?case by simp
next
  case (Cons r roots)
  show ?case
  proof (cases "parse (DerBytes r)")
    case (Inl e)
    then show ?thesis by simp
  next
    case (Inr certs)
    with Cons.prems have "\<exists>r \<in> set roots. \<exists>e. parse (DerBytes r) = Inl e" by auto
    from Cons.IH [OF this] Inr show ?thesis by simp
  qed
qed

lemma time_Unix_le: "time_Unix sec \<le> sec * Second"
  by (simp add: time_Unix_def Let_def Second_def)

lemma time_Unix_exact: "unixInRange sec \<Longrightarrow> time_Unix sec = sec * Second"
  by (simp add: time_Unix_def unixInRange_def Let_def)

lemma time_Unix_wraps:
  "maxInt64 - unixToInternal < sec \<Longrightarrow> time_Unix sec = (sec - 2 ^ 64) * Second"
  by (simp add: time_Unix_def Let_def)

lemma pruneJwtSigningKeys_filter:
  "pruneJwtSigningKeys now keys new changed =
     (new @ filter (\<lambda>k. time_After (time_Unix (pk_NotAfter k)) now) keys,
      changed \<or> (\<exists>k \<in> set keys. \<not> time_After (time_Unix (pk_NotAfter k)) now))"
  by (induction keys arbitrary: new changed) (auto simp: Let_def)

lemma pruneJwtSigningKeys_eq:
  assumes "\<forall>k \<in> set keys. unixInRange (pk_NotAfter k)"
  shows "pruneJwtSigningKeys (clockNow - safetyThreshold) keys new changed =
     (new @ filter (\<lambda>k. \<not> expiredJwtSigningKey clockNow k) keys,
      changed \<or> (\<exists>k \<in> set keys. expiredJwtSigningKey clockNow k))"
  using assms
  by (induction keys arbitrary: new changed)
     (auto simp: expiredJwtSigningKey_def time_After_def time_Unix_exact Let_def)

lemma pruneJwtSigningKeys_none_kept:
  assumes "keptJwtSigningKeys clockNow b = []"
  shows "fst (pruneJwtSigningKeys (clockNow - safetyThreshold) (JwtSigningKeys b) [] changed) = []"
proof -
  have "\<not> time_After (time_Unix (pk_NotAfter k)) (clockNow - safetyThreshold)"
    if "k \<in> set (JwtSigningKeys b)" for k
  proof -
    from assms that have "pk_NotAfter k * Second \<le> clockNow - safetyThreshold"
      by (auto simp: keptJwtSigningKeys_def filter_empty_conv expiredJwtSigningKey_def)
    with time_Unix_le [of "pk_NotAfter k"] show ?thesis
      by (simp add: time_After_def)
  qed
  then show ?thesis
    by (simp add: pruneJwtSigningKeys_filter filter_empty_conv)
qed

text \<open>
  C2: for every fetched bundle, if removing the expired material would leave no root CA
  or no JWT signing key, \<open>pruneBundle\<close> returns an error and leaves the datastore as
  it was: the bundle is the same and no \<open>UpdateBundle\<close> request has been added.
\<close>

theorem pruneBundle_refuses_to_empty:
  assumes "FetchBundle fetchFailure ds = Inr (Some oldBundle)"
    and "keptRootCas env clockNow oldBundle = [] \<or> keptJwtSigningKeys clockNow oldBundle = []"
  shows "\<exists>err. pruneBundle env clockNow fetchFailure updateFailure ds = (Some err, ds)"
proof (cases "pruneRootCAs (ParseCertificates env) (clockNow - safetyThreshold)
                (RootCas oldBundle) [] False")
  case (Inl err)
  with assms(1) show ?thesis
    by (simp add: pruneBundle_def time_Add_def)
next
  case (Inr p)
  obtain kept ch where p: "p = (kept, ch)" by (cases p)
  from Inr p have kept: "kept = keptRootCas env clockNow oldBundle"
    using pruneRootCAs_result [of env clockNow "RootCas oldBundle" "[]" False kept ch]
    by (simp add: keptRootCas_def)
  obtain newKeys ch' where
    keys: "pruneJwtSigningKeys (clockNow - safetyThreshold) (JwtSigningKeys oldBundle) [] ch
             = (newKeys, ch')"
    by (cases "pruneJwtSigningKeys (clockNow - safetyThreshold) (JwtSigningKeys oldBundle) [] ch")
  from pruneJwtSigningKeys_none_kept [of clockNow oldBundle ch] keys
  have none: "keptJwtSigningKeys clockNow oldBundle = [] \<Longrightarrow> newKeys = []"
    by simp
  show ?thesis
    using assms Inr p kept keys none
    by (auto simp: pruneBundle_def time_Add_def)
qed


lemma keptRootCas_changed:
  "(\<exists>r \<in> set (RootCas b). expiredRootCA env clockNow r) = (keptRootCas env clockNow b \<noteq> RootCas b)"
  by (auto simp: keptRootCas_def filter_id_conv)

lemma keptJwtSigningKeys_changed:
  "(\<exists>k \<in> set (JwtSigningKeys b). expiredJwtSigningKey clockNow k) =
     (keptJwtSigningKeys clockNow b \<noteq> JwtSigningKeys b)"
  by (auto simp: keptJwtSigningKeys_def filter_id_conv)

lemma filter_shorter: "filter P xs \<noteq> xs \<Longrightarrow> length (filter P xs) < length xs"
  by (metis filter_True length_filter_less not_less_iff_gr_or_eq)

lemma pruneBundle_parsed:
  assumes "FetchBundle fetchFailure ds = Inr (Some old)"
    and "\<forall>r \<in> set (RootCas old). \<exists>certs. ParseCertificates env (DerBytes r) = Inr certs"
    and "\<forall>k \<in> set (JwtSigningKeys old). unixInRange (pk_NotAfter k)"
  shows "pruneBundle env clockNow fetchFailure updateFailure ds =
     (if keptRootCas env clockNow old = []
      then (Some (Error ''would prune all certificates''), ds)
      else if keptJwtSigningKeys clockNow old = []
      then (Some (Error ''would prune all JWT signing keys''), ds)
      else if keptRootCas env clockNow old = RootCas old
              \<and> keptJwtSigningKeys clockNow old = JwtSigningKeys old
      then (None, ds)
      else (case updateFailure of
              None \<Rightarrow> None
            | Some err \<Rightarrow> Some (Errorf ''write new bundle: %v'' err),
            ds\<lparr>ds_bundle :=
                 (if updateFailure = None
                  then Some \<lparr>TrustDomainId = TrustDomainId old,
                             RootCas = keptRootCas env clockNow old,
                             JwtSigningKeys = keptJwtSigningKeys clockNow old\<rparr>
                  else ds_bundle ds),
               ds_updates := ds_updates ds @
                 [\<lparr>TrustDomainId = TrustDomainId old,
                   RootCas = keptRootCas env clockNow old,
                   JwtSigningKeys = keptJwtSigningKeys clockNow old\<rparr>]\<rparr>))"
proof -
  have roots: "pruneRootCAs (ParseCertificates env) (clockNow - safetyThreshold) (RootCas old) [] False =
      Inr (keptRootCas env clockNow old, keptRootCas env clockNow old \<noteq> RootCas old)"
    using pruneRootCAs_parsed [OF assms(2), of clockNow "[]" False]
    by (simp add: keptRootCas_changed) (simp add: keptRootCas_def)
  have keys: "pruneJwtSigningKeys (clockNow - safetyThreshold) (JwtSigningKeys old) [] ch =
      (keptJwtSigningKeys clockNow old, ch \<or> keptJwtSigningKeys clockNow old \<noteq> JwtSigningKeys old)"
    for ch
    by (simp add: pruneJwtSigningKeys_eq [OF assms(3)] keptJwtSigningKeys_changed)
       (simp add: keptJwtSigningKeys_def)
  show ?thesis
    using assms(1)
    by (cases updateFailure)
       (auto simp: pruneBundle_def time_Add_def roots keys UpdateBundle_def)
qed

lemma pruneBundle_unparsable:
  assumes "FetchBundle fetchFailure ds = Inr (Some old)"
    and "\<exists>r \<in> set (RootCas old). \<exists>e. ParseCertificates env (DerBytes r) = Inl e"
  shows "\<exists>err. pruneBundle env clockNow fetchFailure updateFailure ds = (Some err, ds)"
proof -
  from pruneRootCAs_unparsable [OF assms(2)]
  obtain err where "pruneRootCAs (ParseCertificates env) (clockNow - safetyThreshold)
                      (RootCas old) [] False = Inl err"
    by blast
  with assms(1) show ?thesis
    by (simp add: pruneBundle_def time_Add_def)
qed

text \<open>
  C1 (amended): for a bundle whose root CAs all parse and whose JWT signing keys have a
  \<open>NotAfter\<close> in the range of \<^verbatim>\<open>time.Unix\<close> (an int64 of at most
  \<open>maxInt64 - unixToInternal\<close> seconds, so that the conversion does not wrap around),
  \<open>pruneBundle\<close> removes exactly the root CAs that have at least one chain
  certificate whose \<open>NotAfter\<close> is at or before the current time minus 24 hours,
  and exactly the JWT signing keys whose \<open>NotAfter\<close> is at or before that instant;
  a root CA all of whose chain certificates expire after it is kept. When something is
  removed and a root and a key remain, the bundle handed to \<open>UpdateBundle\<close> holds
  the kept roots and keys: both lists are non-empty, both are drawn from the input, and
  together they are shorter than the input's. When nothing is removed, or no root or no
  key would remain, nothing is written. When some root CA of the bundle does not parse,
  \<open>pruneBundle\<close> returns an error and removes nothing: the datastore is as it was.
\<close>

theorem pruneBundle_prunes_expired:
  assumes "FetchBundle fetchFailure ds = Inr (Some old)"
    and "\<forall>k \<in> set (JwtSigningKeys old). unixInRange (pk_NotAfter k)"
  shows "((\<forall>r \<in> set (RootCas old). \<exists>certs. ParseCertificates env (DerBytes r) = Inr certs) \<longrightarrow>
      pruneBundle env clockNow fetchFailure updateFailure ds =
       (if keptRootCas env clockNow old = []
        then (Some (Error ''would prune all certificates''), ds)
        else if keptJwtSigningKeys clockNow old = []
        then (Some (Error ''would prune all JWT signing keys''), ds)
        else if keptRootCas env clockNow old = RootCas old
                \<and> keptJwtSigningKeys clockNow old = JwtSigningKeys old
        then (None, ds)
        else (case updateFailure of
                None \<Rightarrow> None
              | Some err \<Rightarrow> Some (Errorf ''write new bundle: %v'' err),
              ds\<lparr>ds_bundle :=
                   (if updateFailure = None
                    then Some \<lparr>TrustDomainId = TrustDomainId old,
                               RootCas = keptRootCas env clockNow old,
                               JwtSigningKeys = keptJwtSigningKeys clockNow old\<rparr>
                    else ds_bundle ds),
                 ds_updates := ds_updates ds @
                   [\<lparr>TrustDomainId = TrustDomainId old,
                     RootCas = keptRootCas env clockNow old,
                     JwtSigningKeys = keptJwtSigningKeys clockNow old\<rparr>]\<rparr>)))
     \<and> ((\<exists>r \<in> set (RootCas old). \<exists>e. ParseCertificates env (DerBytes r) = Inl e) \<longrightarrow>
          (\<exists>err. pruneBundle env clockNow fetchFailure updateFailure ds = (Some err, ds)))
     \<and> set (keptRootCas env clockNow old) \<subseteq> set (RootCas old)
     \<and> set (keptJwtSigningKeys clockNow old) \<subseteq> set (JwtSigningKeys old)
     \<and> (keptRootCas env clockNow old \<noteq> RootCas old
            \<or> keptJwtSigningKeys clockNow old \<noteq> JwtSigningKeys old \<longrightarrow>
          length (keptRootCas env clockNow old) + length (keptJwtSigningKeys clockNow old)
            < length (RootCas old) + length (JwtSigningKeys old))"
proof -
  have len: "length (keptRootCas env clockNow old) \<le> length (RootCas old)"
    "length (keptJwtSigningKeys clockNow old) \<le> length (JwtSigningKeys old)"
    by (simp_all add: keptRootCas_def keptJwtSigningKeys_def)
  have r: "keptRootCas env clockNow old \<noteq> RootCas old \<Longrightarrow>
           length (keptRootCas env clockNow old) < length (RootCas old)"
    unfolding keptRootCas_def by (rule filter_shorter)
  have k: "keptJwtSigningKeys clockNow old \<noteq> JwtSigningKeys old \<Longrightarrow>
           length (keptJwtSigningKeys clockNow old) < length (JwtSigningKeys old)"
    unfolding keptJwtSigningKeys_def by (rule filter_shorter)
  have sub: "set (keptRootCas env clockNow old) \<subseteq> set (RootCas old)"
    "set (keptJwtSigningKeys clockNow old) \<subseteq> set (JwtSigningKeys old)"
    by (auto simp: keptRootCas_def keptJwtSigningKeys_def)
  have proper: "(keptRootCas env clockNow old \<noteq> RootCas old
            \<or> keptJwtSigningKeys clockNow old \<noteq> JwtSigningKeys old \<longrightarrow>
          length (keptRootCas env clockNow old) + length (keptJwtSigningKeys clockNow old)
            < length (RootCas old) + length (JwtSigningKeys old))"
  proof (intro impI)
    assume "keptRootCas env clockNow old \<noteq> RootCas old
            \<or> keptJwtSigningKeys clockNow old \<noteq> JwtSigningKeys old"
    then show "length (keptRootCas env clockNow old) + length (keptJwtSigningKeys clockNow old)
            < length (RootCas old) + length (JwtSigningKeys old)"
    proof
      assume "keptRootCas env clockNow old \<noteq> RootCas old"
      from r [OF this] len(2) show ?thesis by linarith
    next
      assume "keptJwtSigningKeys clockNow old \<noteq> JwtSigningKeys old"
      from k [OF this] len(1) show ?thesis by linarith
    qed
  qed
  have parsed: "(\<forall>r \<in> set (RootCas old). \<exists>certs. ParseCertificates env (DerBytes r) = Inr certs) \<longrightarrow>
      pruneBundle env clockNow fetchFailure updateFailure ds =
       (if keptRootCas env clockNow old = []
        then (Some (Error ''would prune all certificates''), ds)
        else if keptJwtSigningKeys clockNow old = []
        then (Some (Error ''would prune all JWT signing keys''), ds)
        else if keptRootCas env clockNow old = RootCas old
                \<and> keptJwtSigningKeys clockNow old = JwtSigningKeys old
        then (None, ds)
        else (case updateFailure of
                None \<Rightarrow> None
              | Some err \<Rightarrow> Some (Errorf ''write new bundle: %v'' err),
              ds\<lparr>ds_bundle :=
                   (if updateFailure = None
                    then Some \<lparr>TrustDomainId = TrustDomainId old,
                               RootCas = keptRootCas env clockNow old,
                               JwtSigningKeys = keptJwtSigningKeys clockNow old\<rparr>
                    else ds_bundle ds),
                 ds_updates := ds_updates ds @
                   [\<lparr>TrustDomainId = TrustDomainId old,
                     RootCas = keptRootCas env clockNow old,
                     JwtSigningKeys = keptJwtSigningKeys clockNow old\<rparr>]\<rparr>))"
    by (intro impI) (rule pruneBundle_parsed [OF assms(1) _ assms(2)])
  have unparsable: "(\<exists>r \<in> set (RootCas old). \<exists>e. ParseCertificates env (DerBytes r) = Inl e) \<longrightarrow>
          (\<exists>err. pruneBundle env clockNow fetchFailure updateFailure ds = (Some err, ds))"
    by (intro impI) (rule pruneBundle_unparsable [OF assms(1)])
  show ?thesis
    by (rule conjI [OF parsed conjI [OF unparsable conjI [OF sub(1) conjI [OF sub(2) proper]]]])
qed

lemmas example_defs = mixedStore_def staleStore_def garbledStore_def mixedRoot_def
  freshRoot_def garbledRoot_def staleKey_def freshKey_def pairEnv_def pairCert_def

text \<open>
  C1 (as stated): \<open>pruneBundle\<close> removes exactly the root CAs whose entire chain
  has expired more than 24 hours ago, and every root CA with some chain certificate still
  within the threshold is kept. This fails: the loop throws a chain out at its first
  expired certificate. Read at 200000 seconds, the first root of the stored bundle has a
  certificate that expires at 150000 seconds, after the cutoff, yet the root is gone from
  the bundle written back.
\<close>

theorem pruneBundle_drops_partly_expired_chain:
  "pruneBundle pairEnv (time_Unix 200000) None None mixedStore =
     (None,
      \<lparr>ds_bundle = Some \<lparr>TrustDomainId = ''spiffe://example.org'', RootCas = [freshRoot],
                          JwtSigningKeys = [freshKey]\<rparr>,
       ds_updates = [\<lparr>TrustDomainId = ''spiffe://example.org'', RootCas = [freshRoot],
                      JwtSigningKeys = [freshKey]\<rparr>]\<rparr>)
   \<and> ParseCertificates pairEnv (DerBytes mixedRoot) = Inr [pairCert 100000 5, pairCert 150000 6]
   \<and> time_After (cert_NotAfter (pairCert 150000 6)) (time_Add (time_Unix 200000) (- safetyThreshold))"
  by (simp add: pruneBundle_def FetchBundle_def UpdateBundle_def example_defs
      safetyThreshold_def time_defs)


lemma mixedStore_fetch:
  "FetchBundle None mixedStore =
     Inr (Some \<lparr>TrustDomainId = ''spiffe://example.org'', RootCas = [mixedRoot, freshRoot],
                 JwtSigningKeys = [staleKey, freshKey]\<rparr>)"
  by (simp add: FetchBundle_def mixedStore_def)

lemma staleStore_fetch:
  "FetchBundle None staleStore =
     Inr (Some \<lparr>TrustDomainId = ''spiffe://example.org'', RootCas = [\<lparr>DerBytes = [100000, 5]\<rparr>],
                 JwtSigningKeys = [freshKey]\<rparr>)"
  by (simp add: FetchBundle_def staleStore_def)

lemma garbledStore_fetch:
  "FetchBundle None garbledStore =
     Inr (Some \<lparr>TrustDomainId = ''spiffe://example.org'',
                 RootCas = [mixedRoot, freshRoot, garbledRoot],
                 JwtSigningKeys = [staleKey, freshKey]\<rparr>)"
  by (simp add: FetchBundle_def garbledStore_def)

theorem pruneBundle_prunes_expired_witness:
  "pruneBundle pairEnv (time_Unix 200000) None (Some (Error ''datastore unavailable'')) mixedStore =
     (Some (Errorf ''write new bundle: %v'' (Error ''datastore unavailable'')),
      mixedStore\<lparr>ds_updates := [\<lparr>TrustDomainId = ''spiffe://example.org'', RootCas = [freshRoot],
                                   JwtSigningKeys = [freshKey]\<rparr>]\<rparr>)
   \<and> pruneBundle pairEnv (time_Unix 200000) None None garbledStore =
       (Some (Wrap (Error ''asn1: syntax error: truncated'')), garbledStore)"
proof -
  have range: "\<forall>k \<in> set (JwtSigningKeys \<lparr>TrustDomainId = ''spiffe://example.org'',
                    RootCas = [mixedRoot, freshRoot], JwtSigningKeys = [staleKey, freshKey]\<rparr>).
                  unixInRange (pk_NotAfter k)"
    by (simp add: example_defs unixInRange_def maxInt64_def unixToInternal_def)
  have parsed: "\<forall>r \<in> set (RootCas \<lparr>TrustDomainId = ''spiffe://example.org'',
                    RootCas = [mixedRoot, freshRoot], JwtSigningKeys = [staleKey, freshKey]\<rparr>).
                  \<exists>certs. ParseCertificates pairEnv (DerBytes r) = Inr certs"
    by (simp add: example_defs)
  have roots: "keptRootCas pairEnv (time_Unix 200000)
                 \<lparr>TrustDomainId = ''spiffe://example.org'', RootCas = [mixedRoot, freshRoot],
                  JwtSigningKeys = [staleKey, freshKey]\<rparr> = [freshRoot]"
    by (simp add: keptRootCas_def expiredRootCA_def example_defs safetyThreshold_def time_defs)
  have keys: "keptJwtSigningKeys (time_Unix 200000)
                 \<lparr>TrustDomainId = ''spiffe://example.org'', RootCas = [mixedRoot, freshRoot],
                  JwtSigningKeys = [staleKey, freshKey]\<rparr> = [freshKey]"
    by (simp add: keptJwtSigningKeys_def expiredJwtSigningKey_def example_defs
        safetyThreshold_def time_defs)
  have first: "pruneBundle pairEnv (time_Unix 200000) None (Some (Error ''datastore unavailable''))
       mixedStore =
     (Some (Errorf ''write new bundle: %v'' (Error ''datastore unavailable'')),
      mixedStore\<lparr>ds_updates := [\<lparr>TrustDomainId = ''spiffe://example.org'', RootCas = [freshRoot],
                                   JwtSigningKeys = [freshKey]\<rparr>]\<rparr>)"
    using pruneBundle_prunes_expired [OF mixedStore_fetch range, of pairEnv "time_Unix 200000"
        "Some (Error ''datastore unavailable'')"] parsed
    by (simp add: roots keys) (simp add: mixedStore_def)
  have range': "\<forall>k \<in> set (JwtSigningKeys \<lparr>TrustDomainId = ''spiffe://example.org'',
                    RootCas = [mixedRoot, freshRoot, garbledRoot],
                    JwtSigningKeys = [staleKey, freshKey]\<rparr>).
                  unixInRange (pk_NotAfter k)"
    by (simp add: example_defs unixInRange_def maxInt64_def unixToInternal_def)
  have garbled: "\<exists>r \<in> set (RootCas \<lparr>TrustDomainId = ''spiffe://example.org'',
                    RootCas = [mixedRoot, freshRoot, garbledRoot],
                    JwtSigningKeys = [staleKey, freshKey]\<rparr>).
                  \<exists>e. ParseCertificates pairEnv (DerBytes r) = Inl e"
    by (simp add: example_defs)
  from pruneBundle_prunes_expired [OF garbledStore_fetch range', of pairEnv "time_Unix 200000" None]
    garbled
  obtain err where
    "pruneBundle pairEnv (time_Unix 200000) None None garbledStore = (Some err, garbledStore)"
    by blast
  moreover have "fst (pruneBundle pairEnv (time_Unix 200000) None None garbledStore) =
      Some (Wrap (Error ''asn1: syntax error: truncated''))"
    by (simp add: pruneBundle_def FetchBundle_def example_defs safetyThreshold_def time_defs)
  ultimately show ?thesis using first by simp
qed

theorem pruneBundle_refuses_to_empty_witness:
  "keptRootCas pairEnv (time_Unix 200000)
     \<lparr>TrustDomainId = ''spiffe://example.org'', RootCas = [\<lparr>DerBytes = [100000, 5]\<rparr>],
      JwtSigningKeys = [freshKey]\<rparr> = []
   \<and> pruneBundle pairEnv (time_Unix 200000) None None staleStore =
       (Some (Error ''would prune all certificates''), staleStore)"
proof -
  have roots: "keptRootCas pairEnv (time_Unix 200000)
     \<lparr>TrustDomainId = ''spiffe://example.org'', RootCas = [\<lparr>DerBytes = [100000, 5]\<rparr>],
      JwtSigningKeys = [freshKey]\<rparr> = []"
    by (simp add: keptRootCas_def expiredRootCA_def example_defs safetyThreshold_def time_defs)
  then have "keptRootCas pairEnv (time_Unix 200000)
     \<lparr>TrustDomainId = ''spiffe://example.org'', RootCas = [\<lparr>DerBytes = [100000, 5]\<rparr>],
      JwtSigningKeys = [freshKey]\<rparr> = []
     \<or> keptJwtSigningKeys (time_Unix 200000)
     \<lparr>TrustDomainId = ''spiffe://example.org'', RootCas = [\<lparr>DerBytes = [100000, 5]\<rparr>],
      JwtSigningKeys = [freshKey]\<rparr> = []" by simp
  from pruneBundle_refuses_to_empty [OF staleStore_fetch this, of None]
  obtain err where "pruneBundle pairEnv (time_Unix 200000) None None staleStore = (Some err, staleStore)"
    by blast
  moreover have "fst (pruneBundle pairEnv (time_Unix 200000) None None staleStore) =
      Some (Error ''would prune all certificates'')"
    by (simp add: pruneBundle_def FetchBundle_def example_defs safetyThreshold_def time_defs)
  ultimately show ?thesis using roots by simp
qed

section \<open>Recovery and rotation: slot ids\<close>

lemma loadX509CASlots_no_current_alone:
  "loadX509CASlots env entries \<noteq> Inr (Some currentSlot, None)"
  by (auto simp: loadX509CASlots_def split: sum.splits if_splits)

lemma loadJWTKeySlots_no_current_alone:
  "loadJWTKeySlots env entries \<noteq> Inr (Some currentSlot, None)"
  by (auto simp: loadJWTKeySlots_def split: sum.splits if_splits)

lemma loadX509CASlots_last_unusable:
  assumes "loadX509CASlotFromEntry env e = BadReason reason"
  shows "loadX509CASlots env (pre @ [e]) = Inr (None, None)"
  using assms by (simp add: loadX509CASlots_def tryLoadX509CASlotFromEntry_def)

lemma loadJWTKeySlots_last_unusable:
  assumes "loadJWTKeySlotFromEntry env e = BadReason reason"
  shows "loadJWTKeySlots env (pre @ [e]) = Inr (None, None)"
  using assms by (simp add: loadJWTKeySlots_def tryLoadJWTKeySlotFromEntry_def)

lemma activateX509CA_slots:
  "activateX509CA m = Returns m' \<Longrightarrow>
   currentX509CA m' = currentX509CA m \<and> nextX509CA m' = nextX509CA m
   \<and> currentJWTKey m' = currentJWTKey m \<and> nextJWTKey m' = nextJWTKey m"
  by (auto simp: activateX509CA_def split: option.splits outcome.splits)

lemma activateJWTKey_slots:
  "activateJWTKey m = Returns m' \<Longrightarrow>
   currentX509CA m' = currentX509CA m \<and> nextX509CA m' = nextX509CA m
   \<and> currentJWTKey m' = currentJWTKey m \<and> nextJWTKey m' = nextJWTKey m"
  by (auto simp: activateJWTKey_def split: option.splits)

lemma activateLoadedX509CA_slots:
  "activateLoadedX509CA now m = Returns m' \<Longrightarrow>
   currentX509CA m' = currentX509CA m \<and> nextX509CA m' = nextX509CA m
   \<and> currentJWTKey m' = currentJWTKey m \<and> nextJWTKey m' = nextJWTKey m"
  by (auto simp: activateLoadedX509CA_def dest: activateX509CA_slots
      split: if_splits outcome.splits bool.splits)

lemma activateLoadedJWTKey_slots:
  "activateLoadedJWTKey now m = Returns m' \<Longrightarrow>
   currentX509CA m' = currentX509CA m \<and> nextX509CA m' = nextX509CA m
   \<and> currentJWTKey m' = currentJWTKey m \<and> nextJWTKey m' = nextJWTKey m"
  by (auto simp: activateLoadedJWTKey_def dest: activateJWTKey_slots split: if_splits)

lemma loadJournal_slots:
  assumes "loadJournal env now migrated (Inr entries) = Returns (Inr m)"
  shows "\<exists>xp jp. loadX509CASlots env (X509CAs entries) = Inr xp
          \<and> switchX509CASlots xp = Returns (currentX509CA m, nextX509CA m)
          \<and> loadJWTKeySlots env (JwtKeys entries) = Inr jp
          \<and> switchJWTKeySlots jp = Returns (currentJWTKey m, nextJWTKey m)"
  using assms
  by (auto simp: loadJournal_def
      dest!: activateLoadedX509CA_slots activateLoadedJWTKey_slots
      split: sum.splits outcome.splits prod.splits)





















section \<open>Runs on the concrete journals\<close>

lemmas slot_defs =
  newX509CASlot_def newJWTKeySlot_def x509CASlot_KmKeyID_def jwtKeySlot_KmKeyID_def
  x509CAKmKeyId_def jwtKeyKmKeyId_def x509CASlot_IsEmpty_def jwtKeySlot_IsEmpty_def
  x509CASlot_Reset_def jwtKeySlot_Reset_def x509CASlot_ShouldPrepareNext_def
  x509CASlot_ShouldActivateNext_def jwtKeySlot_ShouldPrepareNext_def
  jwtKeySlot_ShouldActivateNext_def chain0_NotAfter_def

lemmas run_defs =
  entryA_def entryB_def skewedEntry_def jwtEntryA_def jwtEntryB_def exampleConfig_def
  NewManager_def DefaultCATTL_def jwtSignerA_def jwtSignerB_def signerA_def signerB_def
  keyManagerDown_def selfSignB_def newKeyA_def newKeyB_def appendFails_def firstTick_def
  lateTick_def failingTick_def coldManager_def caA_def caB_def jwtKeyA_def jwtKeyB_def
  appendOfKeyA_def appendOfKeyB_def appendOfCaB_def stateAfterInitialize_def
  stateAfterSwap_def twinState_def expiredBeforeIssue_def expiredBeforeIssueJWT_def
  pairEnv_def pairCert_def

lemma load_entryA:
  "loadX509CASlotFromEntry pairEnv entryA =
     Loaded \<lparr>xs_id = ''A'', xs_issuedAt = time_Unix 0, xs_x509CA = Some caA\<rparr>"
  by (simp add: loadX509CASlotFromEntry_def makeSigner_def publicKeyEqual_def x509CAKmKeyId_def
      run_defs)

lemma load_entryB:
  "loadX509CASlotFromEntry pairEnv entryB = BadReason ''no key manager key''"
  by (simp add: loadX509CASlotFromEntry_def makeSigner_def publicKeyEqual_def x509CAKmKeyId_def
      run_defs)

lemma load_skewedEntry:
  "loadX509CASlotFromEntry pairEnv skewedEntry = Loaded expiredBeforeIssue"
  by (simp add: loadX509CASlotFromEntry_def makeSigner_def publicKeyEqual_def x509CAKmKeyId_def
      run_defs)

lemma load_jwtEntryA:
  "loadJWTKeySlotFromEntry pairEnv jwtEntryA =
     Loaded \<lparr>js_id = ''A'', js_issuedAt = time_Unix 0,
             js_jwtKey = Some \<lparr>jwt_Signer = jwtSignerA, jwt_Kid = ''kidA'',
                               jwt_NotAfter = time_Unix 86400\<rparr>\<rparr>"
  by (simp add: loadJWTKeySlotFromEntry_def makeSigner_def publicKeyEqual_def jwtKeyKmKeyId_def
      run_defs)

lemma load_jwtEntryB:
  "loadJWTKeySlotFromEntry pairEnv jwtEntryB = BadReason ''no key manager key''"
  by (simp add: loadJWTKeySlotFromEntry_def makeSigner_def publicKeyEqual_def jwtKeyKmKeyId_def
      run_defs)






lemmas pred_defs =
  x509CASlot_IsEmpty_def jwtKeySlot_IsEmpty_def x509CASlot_Reset_def jwtKeySlot_Reset_def
  x509CASlot_ShouldPrepareNext_def x509CASlot_ShouldActivateNext_def
  jwtKeySlot_ShouldPrepareNext_def jwtKeySlot_ShouldActivateNext_def chain0_NotAfter_def

lemma new_slots_empty:
  "xs_x509CA (newX509CASlot i) = None" "js_jwtKey (newJWTKeySlot i) = None"
  by (simp_all add: newX509CASlot_def newJWTKeySlot_def)

lemmas x509_rotate_defs =
  rotateX509CA_def rotateX509CA_prepareNext_def rotateX509CA_activateNext_def
  activateX509CA_def

lemmas jwt_rotate_defs =
  rotateJWTKey_def rotateJWTKey_prepareNext_def rotateJWTKey_activateNext_def
  activateJWTKey_def











lemma usable_entryA: "usableX509CAEntry pairEnv entryA"
  by (simp add: usableX509CAEntry_def load_entryA)






lemma load_skewed:
  "loadJournal pairEnv (time_Unix 10800) (Inr False)
     (Inr \<lparr>X509CAs = [skewedEntry], JwtKeys = []\<rparr>) =
   Returns (Inr \<lparr>currentX509CA = expiredBeforeIssue, nextX509CA = newX509CASlot ''B'',
                 currentJWTKey = newJWTKeySlot ''A'', nextJWTKey = newJWTKeySlot ''B'',
                 sink_X509CA = [], sink_JWTKey = [], appended = []\<rparr>)"
  by (simp add: loadJournal_def loadX509CASlots_def tryLoadX509CASlotFromEntry_def
      load_skewedEntry switchX509CASlots_def loadJWTKeySlots_def switchJWTKeySlots_def
      activateLoadedX509CA_def activateLoadedJWTKey_def otherSlotID_def
      x509CASlot_IsEmpty_def jwtKeySlot_IsEmpty_def x509CASlot_ShouldActivateNext_def
      chain0_NotAfter_def newJWTKeySlot_def expiredBeforeIssue_def pairCert_def
      threshold_defs time_defs)

text \<open>
  Where the order of the thresholds holds, the swap is safe: from a current slot whose
  leaf certificate does not expire before the slot's issuance time, and a next slot that
  is empty or holds a chain, the second and third step of \<open>rotateX509CA\<close> do not
  panic unless the preparation itself does. The slot swapped in is then never empty.
\<close>

lemma prepareX509CA_prepared:
  assumes "prepareX509CA env c w slot = Returns (None, slot', reqs)"
  shows "\<exists>ca. xs_x509CA slot' = Some ca \<and> ca_Chain ca \<noteq> []"
  using assms
  by (auto simp: prepareX509CA_def Let_def appendBundle_def chain0_NotAfter_def
      split: sum.splits outcome.splits prod.splits option.splits list.splits)

lemma rotateX509CA_activateNext_safe:
  assumes cur: "xs_x509CA (currentX509CA m) = Some ca" "ca_Chain ca \<noteq> []"
    and nxt: "xs_x509CA (nextX509CA m) = Some na" "ca_Chain na \<noteq> []"
  shows "rotateX509CA_activateNext now m \<noteq> Panic"
  using assms
  by (auto simp: rotateX509CA_activateNext_def x509CASlot_ShouldActivateNext_def
      chain0_NotAfter_def activateX509CA_def x509CASlot_Reset_def Let_def
      split: list.splits outcome.splits bool.splits)

lemma rotateX509CA_prepareNext_safe:
  assumes cur: "xs_x509CA (currentX509CA m) = Some ca" "ca_Chain ca = cert # certs"
    and life: "xs_issuedAt (currentX509CA m) \<le> cert_NotAfter cert"
    and nxt: "\<And>na. xs_x509CA (nextX509CA m) = Some na \<Longrightarrow> ca_Chain na \<noteq> []"
    and prep: "prepareX509CA env c wn (nextX509CA m) \<noteq> Panic"
  shows "rotateX509CA_prepareNext env c now wn m \<noteq> Panic"
proof (cases "xs_x509CA (nextX509CA m)")
  case (Some na)
  with nxt have "ca_Chain na \<noteq> []" by simp
  with cur Some have "rotateX509CA_activateNext now m \<noteq> Panic"
    by (intro rotateX509CA_activateNext_safe [where ca = ca and na = na]) simp_all
  with Some show ?thesis
    by (simp add: rotateX509CA_prepareNext_def x509CASlot_IsEmpty_def)
next
  case None
  obtain b where b: "x509CASlot_ShouldPrepareNext (currentX509CA m) now = Returns b"
    using cur by (simp add: x509CASlot_ShouldPrepareNext_def chain0_NotAfter_def)
  show ?thesis
  proof (cases b)
    case False
    from b False cur have "\<not> preparationThreshold (xs_issuedAt (currentX509CA m))
                                (cert_NotAfter cert) < now"
      by (simp add: x509CASlot_ShouldPrepareNext_def chain0_NotAfter_def time_After_def)
    with thresholds_ordered [OF life]
    have "\<not> activationThreshold (xs_issuedAt (currentX509CA m)) (cert_NotAfter cert) < now"
      by simp
    with cur have "x509CASlot_ShouldActivateNext (currentX509CA m) now = Returns False"
      by (simp add: x509CASlot_ShouldActivateNext_def chain0_NotAfter_def time_After_def)
    then have "rotateX509CA_activateNext now m = Returns (None, m)"
      by (simp add: rotateX509CA_activateNext_def)
    with None b False show ?thesis
      by (simp add: rotateX509CA_prepareNext_def x509CASlot_IsEmpty_def)
  next
    case True
    from prep obtain r where r: "prepareX509CA env c wn (nextX509CA m) = Returns r"
      by (cases "prepareX509CA env c wn (nextX509CA m)") simp_all
    obtain err slot reqs where rr: "r = (err, slot, reqs)" by (cases r)
    show ?thesis
    proof (cases err)
      case (Some e)
      with None b True r rr show ?thesis
        by (simp add: rotateX509CA_prepareNext_def x509CASlot_IsEmpty_def)
    next
      case none: None
      from prepareX509CA_prepared [of env c wn "nextX509CA m" slot reqs] r rr none
      obtain na where na: "xs_x509CA slot = Some na" "ca_Chain na \<noteq> []" by auto
      have "rotateX509CA_activateNext now
              (m\<lparr>nextX509CA := slot, appended := appended m @ reqs\<rparr>) \<noteq> Panic"
        using cur na by (intro rotateX509CA_activateNext_safe [where ca = ca and na = na]) simp_all
      with None b True r rr none show ?thesis
        by (simp add: rotateX509CA_prepareNext_def x509CASlot_IsEmpty_def)
    qed
  qed
qed

text \<open>
  C5: on every rotation tick the slot being activated after the swap is non-empty, also
  when the current slot's \<open>NotAfter\<close> is earlier than its \<open>issuedAt\<close>. The code
  does not keep this. A journal holding one usable entry whose certificate expired at 0h
  and whose issuance time is 12h, read at 3h: recovery makes the entry the current slot
  and leaves the next slot empty; the first rotation does not prepare the next slot (3h is
  before the preparation threshold of 6h), swaps (3h is past the activation threshold of
  2h) and activates the empty slot, which dereferences its nil material. The JWT rotation
  has the same shape and panics in the same way.
\<close>

theorem activation_of_empty_slot_panics:
  "Initialize pairEnv c (time_Unix 10800) (Inr False)
     (Inr \<lparr>X509CAs = [skewedEntry], JwtKeys = []\<rparr>) (t\<lparr>t_NowX509 := time_Unix 10800\<rparr>) = Panic
   \<and> rotateJWTKey env c (time_Unix 10800) wc wn
       (m\<lparr>currentJWTKey := expiredBeforeIssueJWT, nextJWTKey := newJWTKeySlot ''B''\<rparr>) = Panic"
proof
  show "Initialize pairEnv c (time_Unix 10800) (Inr False)
     (Inr \<lparr>X509CAs = [skewedEntry], JwtKeys = []\<rparr>) (t\<lparr>t_NowX509 := time_Unix 10800\<rparr>) = Panic"
  proof -
    have "rotate pairEnv c (t\<lparr>t_NowX509 := time_Unix 10800\<rparr>)
            \<lparr>currentX509CA = expiredBeforeIssue, nextX509CA = newX509CASlot ''B'',
             currentJWTKey = newJWTKeySlot ''A'', nextJWTKey = newJWTKeySlot ''B'',
             sink_X509CA = [], sink_JWTKey = [], appended = []\<rparr> = Panic"
      by (simp add: rotate_def x509_rotate_defs pred_defs new_slots_empty
          expiredBeforeIssue_def pairCert_def threshold_defs time_defs)
    then show ?thesis
      by (simp add: Initialize_def load_skewed)
  qed
  show "rotateJWTKey env c (time_Unix 10800) wc wn
       (m\<lparr>currentJWTKey := expiredBeforeIssueJWT, nextJWTKey := newJWTKeySlot ''B''\<rparr>) = Panic"
    by (simp add: jwt_rotate_defs pred_defs new_slots_empty expiredBeforeIssueJWT_def
        threshold_defs time_defs)
qed


lemma errs_Combine_two:
  "errs_Combine [a, b] =
     (case (a, b) of
        (None, None) \<Rightarrow> None
      | (Some e1, None) \<Rightarrow> Some e1
      | (None, Some e2) \<Rightarrow> Some e2
      | (Some e1, Some e2) \<Rightarrow> Some (combinedError [e1, e2]))"
  by (cases a; cases b) (simp_all add: errs_Combine_def List.map_filter_def)

text \<open>
  C9: on a rotation tick the JWT key rotation runs on the state the X509 rotation left,
  whatever error the X509 rotation returned, and the tick returns the two errors combined
  into one value: nil exactly when both are nil, and one error holding both when both
  rotations failed.
\<close>

theorem rotate_attempts_both_kinds:
  assumes "rotateX509CA env c (t_NowX509 t) (t_CurrentX509 t) (t_NextX509 t) m
             = Returns (x509CAErr, m1)"
    and "rotateJWTKey env c (t_NowJWT t) (t_CurrentJWT t) (t_NextJWT t) m1
             = Returns (jwtKeyErr, m2)"
  shows "rotate env c t m = Returns (errs_Combine [x509CAErr, jwtKeyErr], m2)
         \<and> (errs_Combine [x509CAErr, jwtKeyErr] = None
              \<longleftrightarrow> x509CAErr = None \<and> jwtKeyErr = None)
         \<and> (\<forall>e1 e2. x509CAErr = Some e1 \<and> jwtKeyErr = Some e2 \<longrightarrow>
               errs_Combine [x509CAErr, jwtKeyErr] = Some (combinedError [e1, e2]))"
proof (intro conjI)
  show "rotate env c t m = Returns (errs_Combine [x509CAErr, jwtKeyErr], m2)"
    using assms by (simp add: rotate_def)
  show "errs_Combine [x509CAErr, jwtKeyErr] = None \<longleftrightarrow> x509CAErr = None \<and> jwtKeyErr = None"
    by (cases x509CAErr; cases jwtKeyErr) (simp_all add: errs_Combine_two)
  show "\<forall>e1 e2. x509CAErr = Some e1 \<and> jwtKeyErr = Some e2 \<longrightarrow>
          errs_Combine [x509CAErr, jwtKeyErr] = Some (combinedError [e1, e2])"
    by (simp add: errs_Combine_two)
qed

lemma prepare_appendFails:
  "prepareJWTKey pairEnv exampleConfig appendFails (newJWTKeySlot ''A'') =
     (Some (Error ''datastore unavailable''), newJWTKeySlot ''A'', [appendOfKeyA])"
  by (simp add: prepareJWTKey_def newJWTKey_def newKeyID_def publicKeyFromJWTKey_def
      appendBundle_def time_ToUnix_def slot_defs run_defs time_defs)

lemma prepare_keyManagerDown:
  "prepareX509CA pairEnv exampleConfig keyManagerDown (newX509CASlot ''A'') =
     Returns (Some (Error ''key manager unavailable''), newX509CASlot ''A'', [])"
  by (simp add: prepareX509CA_def keyManagerDown_def x509CASlot_Reset_def newX509CASlot_def)

lemma rotateX509CA_failing:
  "rotateX509CA pairEnv exampleConfig (t_NowX509 failingTick) (t_CurrentX509 failingTick)
     (t_NextX509 failingTick) coldManager =
   Returns (Some (Error ''key manager unavailable''), coldManager)"
  by (simp add: failingTick_def coldManager_def rotateX509CA_def x509CASlot_IsEmpty_def
      new_slots_empty prepare_keyManagerDown)

lemma rotateJWTKey_failing:
  "rotateJWTKey pairEnv exampleConfig (t_NowJWT failingTick) (t_CurrentJWT failingTick)
     (t_NextJWT failingTick) coldManager =
   Returns (Some (Error ''datastore unavailable''), coldManager\<lparr>appended := [appendOfKeyA]\<rparr>)"
  by (simp add: failingTick_def coldManager_def rotateJWTKey_def jwtKeySlot_IsEmpty_def
      new_slots_empty prepare_appendFails)

theorem rotate_attempts_both_kinds_witness:
  "rotate pairEnv exampleConfig failingTick coldManager =
     Returns (Some (combinedError [Error ''key manager unavailable'',
                                    Error ''datastore unavailable'']),
              coldManager\<lparr>appended := [appendOfKeyA]\<rparr>)"
  using rotate_attempts_both_kinds [OF rotateX509CA_failing rotateJWTKey_failing]
  by (simp add: errs_Combine_two)

lemma loadX509CASlotFromEntry_unusable_iff:
  "(\<exists>reason. loadX509CASlotFromEntry env e = BadReason reason) \<longleftrightarrow>
     xe_SlotId e = []
     \<or> (\<exists>chain. parseChain env (xe_Chain e) [] = Inr chain
          \<and> (chain = []
              \<or> makeSigner env (x509CAKmKeyId (xe_SlotId e)) = Inr None
              \<or> (\<exists>signer. makeSigner env (x509CAKmKeyId (xe_SlotId e)) = Inr (Some signer)
                   \<and> \<not> publicKeyEqual env (cert_PublicKey (chain ! 0)) (signer_Public signer))))"
  by (auto simp: loadX509CASlotFromEntry_def split: sum.splits option.splits)

lemma loadJWTKeySlotFromEntry_unusable_iff:
  "(\<exists>reason. loadJWTKeySlotFromEntry env e = BadReason reason) \<longleftrightarrow>
     je_SlotId e = []
     \<or> (\<exists>publicKey. ParsePKIXPublicKey env (je_PublicKey e) = Inr publicKey
          \<and> (makeSigner env (jwtKeyKmKeyId (je_SlotId e)) = Inr None
              \<or> (\<exists>signer. makeSigner env (jwtKeyKmKeyId (je_SlotId e)) = Inr (Some signer)
                   \<and> \<not> publicKeyEqual env publicKey (signer_Public signer))))"
  by (auto simp: loadJWTKeySlotFromEntry_def split: sum.splits option.splits)

lemma loadX509CASlotFromEntry_reasons:
  "loadX509CASlotFromEntry env e = BadReason reason \<Longrightarrow>
   reason \<in> {''no slot id'', ''no certificates in chain'', ''no key manager key'',
             ''public key does not match key manager key''}"
  by (auto simp: loadX509CASlotFromEntry_def split: if_splits sum.splits option.splits)

lemma loadJWTKeySlotFromEntry_reasons:
  "loadJWTKeySlotFromEntry env e = BadReason reason \<Longrightarrow>
   reason \<in> {''no slot id'', ''no key manager key'',
             ''public key does not match key manager key''}"
  by (auto simp: loadJWTKeySlotFromEntry_def split: if_splits sum.splits option.splits)

text \<open>
  C10: during journal recovery, if the last entry of a kind is unusable (its loader gives
  a reason: no slot id, no certificate in the chain, no key manager key, or a public key
  that does not match), the second-to-last entry is not read, whatever the entries before
  the last one are: both slots of that kind come up empty, with ids A and B.
\<close>

theorem unusable_last_entry_leaves_slots_empty:
  "(loadX509CASlotFromEntry env e = BadReason reason \<longrightarrow>
      loadX509CASlots env (pre @ [e]) = Inr (None, None)
      \<and> switchX509CASlots (None, None) = Returns (newX509CASlot ''A'', newX509CASlot ''B'')
      \<and> (loadJournal env now migrated (Inr \<lparr>X509CAs = pre @ [e], JwtKeys = js\<rparr>)
            = Returns (Inr m) \<longrightarrow>
          currentX509CA m = newX509CASlot ''A'' \<and> nextX509CA m = newX509CASlot ''B''))
   \<and> (loadJWTKeySlotFromEntry env je = BadReason jreason \<longrightarrow>
      loadJWTKeySlots env (jpre @ [je]) = Inr (None, None)
      \<and> switchJWTKeySlots (None, None) = Returns (newJWTKeySlot ''A'', newJWTKeySlot ''B'')
      \<and> (loadJournal env now migrated (Inr \<lparr>X509CAs = xs, JwtKeys = jpre @ [je]\<rparr>)
            = Returns (Inr m') \<longrightarrow>
          currentJWTKey m' = newJWTKeySlot ''A'' \<and> nextJWTKey m' = newJWTKeySlot ''B''))"
proof (intro conjI impI)
  assume bad: "loadX509CASlotFromEntry env e = BadReason reason"
  show l: "loadX509CASlots env (pre @ [e]) = Inr (None, None)"
    by (rule loadX509CASlots_last_unusable [OF bad])
  show s: "switchX509CASlots (None, None) = Returns (newX509CASlot ''A'', newX509CASlot ''B'')"
    by (simp add: switchX509CASlots_def)
  assume "loadJournal env now migrated (Inr \<lparr>X509CAs = pre @ [e], JwtKeys = js\<rparr>)
            = Returns (Inr m)"
  from loadJournal_slots [OF this] l s
  show "currentX509CA m = newX509CASlot ''A''" "nextX509CA m = newX509CASlot ''B''"
    by auto
next
  assume bad: "loadJWTKeySlotFromEntry env je = BadReason jreason"
  show l: "loadJWTKeySlots env (jpre @ [je]) = Inr (None, None)"
    by (rule loadJWTKeySlots_last_unusable [OF bad])
  show s: "switchJWTKeySlots (None, None) = Returns (newJWTKeySlot ''A'', newJWTKeySlot ''B'')"
    by (simp add: switchJWTKeySlots_def)
  assume "loadJournal env now migrated (Inr \<lparr>X509CAs = xs, JwtKeys = jpre @ [je]\<rparr>)
            = Returns (Inr m')"
  from loadJournal_slots [OF this] l s
  show "currentJWTKey m' = newJWTKeySlot ''A''" "nextJWTKey m' = newJWTKeySlot ''B''"
    by auto
qed

lemma load_unusable_last:
  "loadJournal pairEnv (time_Unix 3600) (Inr False)
     (Inr \<lparr>X509CAs = [entryA] @ [entryB], JwtKeys = [jwtEntryA] @ [jwtEntryB]\<rparr>) =
   Returns (Inr coldManager)"
  by (simp add: loadJournal_def loadX509CASlots_def tryLoadX509CASlotFromEntry_def load_entryB
      switchX509CASlots_def loadJWTKeySlots_def tryLoadJWTKeySlotFromEntry_def load_jwtEntryB
      switchJWTKeySlots_def activateLoadedX509CA_def activateLoadedJWTKey_def
      x509CASlot_IsEmpty_def jwtKeySlot_IsEmpty_def new_slots_empty coldManager_def)

theorem unusable_last_entry_leaves_slots_empty_witness:
  "usableX509CAEntry pairEnv entryA
   \<and> usableJWTKeyEntry pairEnv jwtEntryA
   \<and> loadJournal pairEnv (time_Unix 3600) (Inr False)
       (Inr \<lparr>X509CAs = [entryA, entryB], JwtKeys = [jwtEntryA, jwtEntryB]\<rparr>) =
       Returns (Inr coldManager)
   \<and> currentX509CA coldManager = newX509CASlot ''A''
   \<and> nextX509CA coldManager = newX509CASlot ''B''
   \<and> currentJWTKey coldManager = newJWTKeySlot ''A''
   \<and> nextJWTKey coldManager = newJWTKeySlot ''B''"
proof -
  have u: "usableX509CAEntry pairEnv entryA" "usableJWTKeyEntry pairEnv jwtEntryA"
    by (simp_all add: usableX509CAEntry_def usableJWTKeyEntry_def load_entryA load_jwtEntryA)
  from unusable_last_entry_leaves_slots_empty [of pairEnv entryB "''no key manager key''" "[entryA]"
      "time_Unix 3600" "Inr False" "[jwtEntryA] @ [jwtEntryB]" coldManager
      jwtEntryB "''no key manager key''" "[jwtEntryA]" "[entryA] @ [entryB]" coldManager]
    load_entryB load_jwtEntryB load_unusable_last u
  show ?thesis by simp
qed

end
